theory Spec2Isabelle
  imports Complex_Main
begin

section \<open>JavaScript strings\<close>

text \<open>
  Strings are lists of characters.  The helpers below are the string methods the route
  handlers call, restricted to ASCII: \<open>toLowerCase\<close> and \<open>toUpperCase\<close> change the
  letters A-Z and a-z only, and \<open>trim\<close> removes the ASCII white space characters.
\<close>

definition startsWith :: "string \<Rightarrow> string \<Rightarrow> bool" where
  "startsWith s p = (take (length p) s = p)"

fun str_includes :: "string \<Rightarrow> string \<Rightarrow> bool" where
  "str_includes [] sub = (sub = [])"
| "str_includes (c # cs) sub = (startsWith (c # cs) sub \<or> str_includes cs sub)"

definition lower_char :: "char \<Rightarrow> char" where
  "lower_char c =
     (case map_of (zip ''ABCDEFGHIJKLMNOPQRSTUVWXYZ'' ''abcdefghijklmnopqrstuvwxyz'') c of
        Some d \<Rightarrow> d
      | None \<Rightarrow> c)"

definition upper_char :: "char \<Rightarrow> char" where
  "upper_char c =
     (case map_of (zip ''abcdefghijklmnopqrstuvwxyz'' ''ABCDEFGHIJKLMNOPQRSTUVWXYZ'') c of
        Some d \<Rightarrow> d
      | None \<Rightarrow> c)"

definition toLowerCase :: "string \<Rightarrow> string" where
  "toLowerCase s = map lower_char s"

definition toUpperCase :: "string \<Rightarrow> string" where
  "toUpperCase s = map upper_char s"

definition is_space :: "char \<Rightarrow> bool" where
  "is_space c = (c \<in> set [CHR '' '', CHR 0x09, CHR 0x0A, CHR 0x0B, CHR 0x0C, CHR 0x0D])"

definition trim :: "string \<Rightarrow> string" where
  "trim s = rev (dropWhile is_space (rev (dropWhile is_space s)))"

text \<open>\<open>s.substring(0, n)\<close>.\<close>

definition substring0 :: "nat \<Rightarrow> string \<Rightarrow> string" where
  "substring0 n s = take n s"

text \<open>
  An attribute or property that may be \<open>undefined\<close> is a \<open>string option\<close>.
  \<open>a || d\<close> on such a value takes \<open>d\<close> when \<open>a\<close> is \<open>undefined\<close> or the empty string.
\<close>

definition truthy :: "string option \<Rightarrow> bool" where
  "truthy a = (case a of None \<Rightarrow> False | Some s \<Rightarrow> s \<noteq> [])"

definition or_str :: "string option \<Rightarrow> string \<Rightarrow> string" where
  "or_str a d = (case a of None \<Rightarrow> d | Some s \<Rightarrow> if s = [] then d else s)"

text \<open>The double quote character, for attribute patterns such as \<open>role="group"\<close>.\<close>

definition dquote :: string where
  "dquote = [CHR 0x22]"

section \<open>Form validation: classification and the per-form accessibility score\<close>

text \<open>
  The objects that \<open>analyzeForms\<close> pushes into \<open>inputs\<close>.  \<open>classifyForm\<close> and
  \<open>calculateAccessibilityScore\<close> take \<open>any[]\<close> and guard \<open>type\<close> and \<open>label\<close> against
  \<open>undefined\<close>, so both fields are optional here.
\<close>

record form_input =
  in_type :: "string option"
  in_name :: string
  in_id :: string
  in_label :: "string option"
  in_required :: bool

text \<open>\<open>inputs.map((input) => input.type?.toLowerCase() || "text")\<close>\<close>

definition inputTypes :: "form_input list \<Rightarrow> string list" where
  "inputTypes inputs = map (\<lambda>i. or_str (map_option toLowerCase (in_type i)) ''text'') inputs"

definition classifyForm :: "form_input list \<Rightarrow> string \<Rightarrow> string \<Rightarrow> string" where
  "classifyForm inputs formHtml pageUrl =
     (let types = inputTypes inputs;
          formText = toLowerCase formHtml;
          urlPath = toLowerCase pageUrl
      in
      if (''password'' \<in> set types \<and> (''email'' \<in> set types \<or> ''text'' \<in> set types))
         \<and> (str_includes formText ''login'' \<or> str_includes formText ''sign in'' \<or> str_includes urlPath ''login'')
      then ''Login Form''
      else if (''password'' \<in> set types \<and> length types \<ge> 3)
         \<and> (str_includes formText ''register'' \<or> str_includes formText ''sign up''
              \<or> str_includes formText ''create account'')
      then ''Registration Form''
      else if (''email'' \<in> set types \<and> (''textarea'' \<in> set types \<or> str_includes formText ''message''))
         \<and> (str_includes formText ''contact'' \<or> str_includes formText ''get in touch''
              \<or> str_includes urlPath ''contact'')
      then ''Contact Form''
      else if (''email'' \<in> set types \<and> length types \<le> 2)
         \<and> (str_includes formText ''newsletter'' \<or> str_includes formText ''subscribe''
              \<or> str_includes formText ''updates'')
      then ''Newsletter Signup''
      else if ''search'' \<in> set types \<or> str_includes formText ''search''
      then ''Search Form''
      else if str_includes formText ''payment'' \<or> str_includes formText ''credit card''
              \<or> str_includes formText ''billing''
      then ''Payment Form''
      else if ''date'' \<in> set types \<or> str_includes formText ''booking''
              \<or> str_includes formText ''reservation''
      then ''Booking Form''
      else if str_includes formText ''quote'' \<or> str_includes formText ''estimate''
              \<or> str_includes formText ''pricing''
      then ''Quote Request Form''
      else if str_includes formText ''support'' \<or> str_includes formText ''help''
              \<or> str_includes formText ''ticket''
      then ''Support Form''
      else if str_includes formText ''feedback'' \<or> str_includes formText ''review''
              \<or> str_includes formText ''rating''
      then ''Feedback Form''
      else ''General Form'')"

text \<open>\<open>input.label && input.label.trim().length > 0\<close>\<close>

definition has_label :: "form_input \<Rightarrow> bool" where
  "has_label i = (case in_label i of None \<Rightarrow> False | Some l \<Rightarrow> l \<noteq> [] \<and> length (trim l) > 0)"

text \<open>\<open>["email", "tel", "url", "number", "date"].includes(input.type?.toLowerCase())\<close>\<close>

definition has_proper_type :: "form_input \<Rightarrow> bool" where
  "has_proper_type i =
     (case in_type i of
        None \<Rightarrow> False
      | Some t \<Rightarrow> toLowerCase t \<in> set [''email'', ''tel'', ''url'', ''number'', ''date''])"

text \<open>
  \<open>calculateAccessibilityScore(inputs, formHtml)\<close> of the form-validation route.  The
  counters \<open>totalChecks\<close> and \<open>passedChecks\<close> are written but never read, and are left out.
\<close>

definition calculateAccessibilityScore_form :: "form_input list \<Rightarrow> string \<Rightarrow> int" where
  "calculateAccessibilityScore_form inputs formHtml =
     (let score0 = 100;
          hasLabels = list_ex has_label inputs;
          score1 = (if hasLabels then score0 else score0 - 20);
          hasRequiredIndicators = (str_includes formHtml ''required'' \<or> str_includes formHtml ''*'');
          score2 = (if hasRequiredIndicators then score1 else score1 - 15);
          hasFieldsets = (str_includes formHtml ''<fieldset'' \<or> str_includes formHtml (''role='' @ dquote @ ''group'' @ dquote));
          score3 = (if hasFieldsets then score2 else score2 - 10);
          hasAriaAttributes = (str_includes formHtml ''aria-'' \<or> str_includes formHtml ''role='');
          score4 = (if hasAriaAttributes then score3 else score3 - 15);
          hasProperTypes = list_ex has_proper_type inputs;
          score5 = (if hasProperTypes then score4 else score4 - 10)
      in max 0 (min 100 score5))"

text \<open>
  What cheerio hands to \<open>analyzeForms\<close>: for each \<open>form\<close> element its \<open>input, select,
  textarea\<close> descendants with the attributes and the label look-ups the callback reads.
\<close>

record input_element =
  el_type_attr :: "string option"
  el_tagName :: "string option"
  el_name_attr :: "string option"
  el_id_attr :: "string option"
  el_label_for_text :: string
  el_parent_label_text :: "string option"
  el_placeholder :: "string option"
  el_aria_label :: "string option"
  el_required_attr :: "string option"

record form_element =
  fe_inputs :: "input_element list"
  fe_html :: "string option"
  fe_method_attr :: "string option"
  fe_action_attr :: "string option"

text \<open>
  An entry of \<open>detailed_forms\<close>.  The field \<open>inputs\<close> is optional: the estimator's entries
  have none.
\<close>

record form_result =
  page_url :: string
  form_index :: nat
  input_count :: nat
  input_types :: "string list"
  form_method :: string
  form_action :: string
  form_classification :: string
  has_labels :: bool
  accessibility_score :: int
  form_inputs :: "form_input list option"

text \<open>
  The label of an input: the text of \<open>label[for=id]\<close> when the input has an id, else the
  text of a parent \<open>label\<close>, else the placeholder or the aria-label, else empty.
\<close>

definition resolve_label :: "input_element \<Rightarrow> string" where
  "resolve_label e =
     (let id = or_str (el_id_attr e) '''';
          label1 = (if id \<noteq> [] then trim (el_label_for_text e) else '''');
          label2 = (if label1 = [] then
                      (case el_parent_label_text e of None \<Rightarrow> label1 | Some t \<Rightarrow> trim t)
                    else label1)
      in if label2 = [] then
           (if truthy (el_placeholder e) then the (el_placeholder e)
            else or_str (el_aria_label e) '''')
         else label2)"

definition read_input :: "input_element \<Rightarrow> form_input" where
  "read_input e =
     \<lparr> in_type = Some (toLowerCase
          (if truthy (el_type_attr e) then the (el_type_attr e)
           else or_str (map_option toLowerCase (el_tagName e)) ''text'')),
       in_name = or_str (el_name_attr e) '''',
       in_id = or_str (el_id_attr e) '''',
       in_label = Some (resolve_label e),
       in_required = (el_required_attr e \<noteq> None) \<rparr>"

text \<open>\<open>[...new Set(xs)]\<close>: the first occurrence of each element, in order.\<close>

definition unique_in_order :: "'a list \<Rightarrow> 'a list" where
  "unique_in_order xs = rev (remdups (rev xs))"

definition analyze_form :: "string \<Rightarrow> nat \<Rightarrow> form_element \<Rightarrow> form_result list" where
  "analyze_form pageUrl formIndex fe =
     (let inputs = map read_input (fe_inputs fe) in
      if length inputs \<ge> 2 then
        (let formHtml = or_str (fe_html fe) '''';
             formMethod = or_str (fe_method_attr fe) ''GET'';
             formAction = or_str (fe_action_attr fe) ''''
         in [\<lparr> page_url = pageUrl,
               form_index = formIndex,
               input_count = length inputs,
               input_types = unique_in_order (map (\<lambda>i. the (in_type i)) inputs),
               form_method = toUpperCase formMethod,
               form_action = formAction,
               form_classification = classifyForm inputs formHtml pageUrl,
               has_labels = list_ex has_label inputs,
               accessibility_score = calculateAccessibilityScore_form inputs formHtml,
               form_inputs = Some inputs \<rparr>])
      else [])"

text \<open>\<open>analyzeForms(html, pageUrl)\<close>, on the \<open>form\<close> elements of the parsed page.\<close>

definition analyzeForms :: "form_element list \<Rightarrow> string \<Rightarrow> form_result list" where
  "analyzeForms forms pageUrl =
     concat (map (\<lambda>(formIndex, fe). analyze_form pageUrl formIndex fe)
                 (zip [0..<length forms] forms))"

section \<open>The fetch strategy engine\<close>

text \<open>
  \<open>fetch\<close> is the platform's: it either resolves with a response or rejects with an
  error.  A transport answers one request and moves to its next state, so that a mock
  transport may answer each call differently.  The network state pairs the transport's
  state with the list of the requests issued so far.

  The jittered delay before a retry, the 15 second abort timer and the random referrer
  change when a request is sent and one of its headers, not which request comes next:
  an aborted request is a rejection with name \<open>AbortError\<close> like any other.
\<close>

datatype strategy = Standard | Mobile | Crawler

definition strategies :: "strategy list" where
  "strategies = [Standard, Mobile, Crawler]"

record js_error =
  err_name :: string
  err_message :: string

record fetch_response =
  resp_status :: nat
  resp_statusText :: string
  resp_body :: string

datatype fetch_outcome = Response fetch_response | Rejected js_error

text \<open>
  A request: the URL and the header strategy of \<open>getHeaders\<close>; \<open>None\<close> is the plain
  \<open>fetch\<close> with the fixed Chrome user agent that two of the routes use.
\<close>

record fetch_request =
  rq_url :: string
  rq_strategy :: "strategy option"

type_synonym 'w transport = "'w \<Rightarrow> fetch_request \<Rightarrow> fetch_outcome \<times> 'w"

type_synonym 'w net = "'w \<times> fetch_request list"

definition do_fetch :: "'w transport \<Rightarrow> fetch_request \<Rightarrow> 'w net \<Rightarrow> fetch_outcome \<times> 'w net" where
  "do_fetch tr rq n =
     (case tr (fst n) rq of (out, w') \<Rightarrow> (out, (w', snd n @ [rq])))"

text \<open>\<open>response.ok\<close>\<close>

definition resp_ok :: "fetch_response \<Rightarrow> bool" where
  "resp_ok r = (200 \<le> resp_status r \<and> resp_status r \<le> 299)"

fun show_nat :: "nat \<Rightarrow> string" where
  "show_nat n =
     (if n < 10 then [char_of (48 + n)]
      else show_nat (n div 10) @ [char_of (48 + n mod 10)])"

text \<open>\<open>new Error(`HTTP ${response.status}: ${response.statusText}`)\<close>\<close>

definition http_error :: "fetch_response \<Rightarrow> js_error" where
  "http_error r =
     \<lparr> err_name = ''Error'',
       err_message = ''HTTP '' @ show_nat (resp_status r) @ '': '' @ resp_statusText r \<rparr>"

text \<open>
  The inner loop of \<open>fetchWithStrategies\<close>, over the strategies left in this attempt.
  A 403 or 429 sets \<open>lastError\<close> and continues; any other status that is not 2xx throws
  inside the \<open>try\<close>, and the \<open>catch\<close> sets \<open>lastError\<close> to the thrown error; a rejected
  \<open>fetch\<close> lands in the same \<open>catch\<close>.  Whether the \<open>catch\<close> ends with \<open>continue\<close> or
  falls off its end, the next strategy is tried.
\<close>

fun try_strategies ::
  "'w transport \<Rightarrow> string \<Rightarrow> strategy list \<Rightarrow> js_error option \<Rightarrow> 'w net
     \<Rightarrow> (js_error option + fetch_response) \<times> 'w net" where
  "try_strategies tr url [] lastError n = (Inl lastError, n)"
| "try_strategies tr url (s # ss) lastError n =
     (case do_fetch tr \<lparr> rq_url = url, rq_strategy = Some s \<rparr> n of
        (Response r, n') \<Rightarrow>
          if resp_ok r then (Inr r, n')
          else if resp_status r = 403 \<or> resp_status r = 429
          then try_strategies tr url ss (Some (http_error r)) n'
          else try_strategies tr url ss (Some (http_error r)) n'
      | (Rejected e, n') \<Rightarrow> try_strategies tr url ss (Some e) n')"

text \<open>The outer loop: the attempts that are left.\<close>

fun fetch_attempts ::
  "'w transport \<Rightarrow> string \<Rightarrow> nat \<Rightarrow> js_error option \<Rightarrow> 'w net
     \<Rightarrow> (js_error option + fetch_response) \<times> 'w net" where
  "fetch_attempts tr url 0 lastError n = (Inl lastError, n)"
| "fetch_attempts tr url (Suc k) lastError n =
     (case try_strategies tr url strategies lastError n of
        (Inr r, n') \<Rightarrow> (Inr r, n')
      | (Inl lastError', n') \<Rightarrow> fetch_attempts tr url k lastError' n')"

text \<open>
  \<open>fetchWithStrategies(url, maxRetries)\<close>: the response, or the error it throws when every
  attempt has failed.
\<close>

definition fetchWithStrategies ::
  "'w transport \<Rightarrow> string \<Rightarrow> nat \<Rightarrow> 'w net \<Rightarrow> (js_error + fetch_response) \<times> 'w net" where
  "fetchWithStrategies tr url maxRetries n =
     (case fetch_attempts tr url maxRetries None n of
        (Inr r, n') \<Rightarrow> (Inr r, n')
      | (Inl lastError, n') \<Rightarrow>
          (Inl (case lastError of
                  Some e \<Rightarrow> e
                | None \<Rightarrow> \<lparr> err_name = ''Error'',
                            err_message = ''All fetch strategies failed'' \<rparr>), n'))"

text \<open>
  The requests of the whole retry and strategy matrix in the order in which the two
  loops reach them, what a transport answers to a list of requests issued one after
  the other, and whether an answer is a 2xx response.
\<close>

definition request_plan :: "string \<Rightarrow> nat \<Rightarrow> fetch_request list" where
  "request_plan url maxRetries =
     concat (replicate maxRetries (map (\<lambda>s. \<lparr> rq_url = url, rq_strategy = Some s \<rparr>) strategies))"

fun outcomes :: "'w transport \<Rightarrow> 'w \<Rightarrow> fetch_request list \<Rightarrow> fetch_outcome list" where
  "outcomes tr w [] = []"
| "outcomes tr w (rq # rqs) = fst (tr w rq) # outcomes tr (snd (tr w rq)) rqs"

definition is_ok :: "fetch_outcome \<Rightarrow> bool" where
  "is_ok out = (case out of Response r \<Rightarrow> resp_ok r | Rejected e \<Rightarrow> False)"

text \<open>
  A single scan over a list of requests that stops at the first 2xx response; the two
  nested loops are compared with it below.
\<close>

fun run_until_ok ::
  "'w transport \<Rightarrow> fetch_request list \<Rightarrow> js_error option \<Rightarrow> 'w net
     \<Rightarrow> (js_error option + fetch_response) \<times> 'w net" where
  "run_until_ok tr [] lastError n = (Inl lastError, n)"
| "run_until_ok tr (rq # rqs) lastError n =
     (case do_fetch tr rq n of
        (Response r, n') \<Rightarrow>
          if resp_ok r then (Inr r, n') else run_until_ok tr rqs (Some (http_error r)) n'
      | (Rejected e, n') \<Rightarrow> run_until_ok tr rqs (Some e) n')"

section \<open>The parsed page\<close>

text \<open>
  cheerio is a library: what the handlers read from a loaded document is given here as
  a record, one field per selection.  \<open>dom_a\<close> is \<open>$("a")\<close> in document order;
  \<open>$("a[href]")\<close> are its elements that have an \<open>href\<close> attribute.
\<close>

record anchor =
  a_href :: "string option"
  a_text :: string
  a_title :: "string option"
  a_aria_label :: "string option"
  a_aria_labelledby :: "string option"

text \<open>
  An element of \<open>input[type="text"], input[type="email"], input[type="password"],
  input[type="tel"], textarea, select\<close>, with the number of \<open>label[for=id]\<close> elements.
\<close>

record page_input =
  pi_id :: "string option"
  pi_aria_label :: "string option"
  pi_aria_labelledby :: "string option"
  pi_label_for_count :: nat

record dom =
  dom_a :: "anchor list"
  dom_img_alt :: "string option list"
  dom_title_text :: string
  dom_meta_description :: "string option"
  dom_h1_text :: "string list"
  dom_h2_count :: nat
  dom_h3_count :: nat
  dom_h4_count :: nat
  dom_inputs :: "page_input list"
  dom_html_lang :: "string option"
  dom_viewport_count :: nat
  dom_canonical_count :: nat
  dom_og_count :: nat
  dom_jsonld_count :: nat
  dom_forms :: "form_element list"

definition a_with_href :: "dom \<Rightarrow> anchor list" where
  "a_with_href d = filter (\<lambda>a. a_href a \<noteq> None) (dom_a d)"

section \<open>Deep analysis: the page scores\<close>

text \<open>
  JavaScript numbers are modelled as reals.  \<open>Math.round\<close> rounds to the nearest
  integer, halves upwards.
\<close>

definition math_round :: "real \<Rightarrow> int" where
  "math_round x = \<lfloor>x + 1 / 2\<rfloor>"

text \<open>
  The block that both scores share, with its weight (0.3 for accessibility, 0.15 for
  SEO): the share of images without a non-empty \<open>alt\<close>.
\<close>

definition alt_deduction :: "real \<Rightarrow> string option list \<Rightarrow> real" where
  "alt_deduction weight images =
     (let imagesWithoutAlt = length (filter (\<lambda>alt. \<not> truthy alt) images) in
      if length images > 0 then
        (let altTextPercentage =
               ((real (length images) - real imagesWithoutAlt) / real (length images)) * 100
         in if altTextPercentage < 100 then (100 - altTextPercentage) * weight else 0)
      else 0)"

definition a11y_h1_deduction :: "dom \<Rightarrow> real" where
  "a11y_h1_deduction d =
     (let h1Count = length (dom_h1_text d) in
      if h1Count = 0 then 15 else if h1Count > 1 then 10 else 0)"

definition without_accessible_name :: "anchor \<Rightarrow> bool" where
  "without_accessible_name a =
     (trim (a_text a) = [] \<and> \<not> truthy (a_aria_label a) \<and> \<not> truthy (a_title a)
      \<and> \<not> truthy (a_aria_labelledby a))"

definition a11y_link_deduction :: "dom \<Rightarrow> real" where
  "a11y_link_deduction d =
     (let links = a_with_href d;
          linksWithoutAccessibleName = length (filter without_accessible_name links) in
      if length links > 0 then
        (let accessibleLinksPercentage =
               ((real (length links) - real linksWithoutAccessibleName) / real (length links)) * 100
         in if accessibleLinksPercentage < 100 then (100 - accessibleLinksPercentage) * 0.2 else 0)
      else 0)"

definition without_label :: "page_input \<Rightarrow> bool" where
  "without_label i =
     (let hasLabel = (truthy (pi_id i) \<and> pi_label_for_count i > 0) in
      \<not> hasLabel \<and> \<not> truthy (pi_aria_label i) \<and> \<not> truthy (pi_aria_labelledby i))"

definition a11y_input_deduction :: "dom \<Rightarrow> real" where
  "a11y_input_deduction d =
     (let inputs = dom_inputs d;
          inputsWithoutLabels = length (filter without_label inputs) in
      if length inputs > 0 then
        (let labeledInputsPercentage =
               ((real (length inputs) - real inputsWithoutLabels) / real (length inputs)) * 100
         in if labeledInputsPercentage < 100 then (100 - labeledInputsPercentage) * 0.25 else 0)
      else 0)"

definition a11y_lang_deduction :: "dom \<Rightarrow> real" where
  "a11y_lang_deduction d = (if \<not> truthy (dom_html_lang d) then 10 else 0)"

text \<open>\<open>a[href^="#"]\<close> whose lower-cased text contains "skip" or "jump".\<close>

definition is_skip_link :: "anchor \<Rightarrow> bool" where
  "is_skip_link a =
     ((case a_href a of None \<Rightarrow> False | Some h \<Rightarrow> startsWith h ''#'')
      \<and> (str_includes (toLowerCase (a_text a)) ''skip''
           \<or> str_includes (toLowerCase (a_text a)) ''jump''))"

definition a11y_skip_deduction :: "dom \<Rightarrow> real" where
  "a11y_skip_deduction d =
     (let skipLinks = length (filter is_skip_link (dom_a d)) in
      if skipLinks = 0 then 5 else 0)"

text \<open>\<open>calculateAccessibilityScore(page$)\<close> of the deep-analysis route.\<close>

definition calculateAccessibilityScore_page :: "dom \<Rightarrow> int" where
  "calculateAccessibilityScore_page d =
     (let score = 100;
          deductions = 0 + alt_deduction 0.3 (dom_img_alt d) + a11y_h1_deduction d
                       + a11y_link_deduction d + a11y_input_deduction d
                       + a11y_lang_deduction d + a11y_skip_deduction d
      in max 0 (math_round (score - deductions)))"

definition seo_title_deduction :: "dom \<Rightarrow> real" where
  "seo_title_deduction d =
     (let title = trim (dom_title_text d) in
      if title = [] then 20
      else if length title < 30 \<or> length title > 60 then 10 else 0)"

definition seo_description_deduction :: "dom \<Rightarrow> real" where
  "seo_description_deduction d =
     (let metaDescription = dom_meta_description d in
      if \<not> truthy metaDescription then 15
      else if length (the metaDescription) < 120 \<or> length (the metaDescription) > 160 then 8
      else 0)"

definition seo_h1_deduction :: "dom \<Rightarrow> real" where
  "seo_h1_deduction d =
     (let h1Tags = dom_h1_text d in
      if length h1Tags = 0 then 15
      else if length h1Tags > 1 then 10
      else (let h1Text = trim (hd h1Tags) in
            if length h1Text < 20 \<or> length h1Text > 70 then 5 else 0))"

definition seo_hierarchy_deduction :: "dom \<Rightarrow> real" where
  "seo_hierarchy_deduction d =
     (if dom_h2_count d = 0 \<and> (dom_h3_count d > 0 \<or> dom_h4_count d > 0) then 8 else 0)"

text \<open>
  \<open>href && !href.startsWith("http") && !href.startsWith("mailto:") &&
  !href.startsWith("tel:")\<close>
\<close>

definition seo_internal_href :: "anchor \<Rightarrow> bool" where
  "seo_internal_href a =
     (truthy (a_href a) \<and> \<not> startsWith (the (a_href a)) ''http''
      \<and> \<not> startsWith (the (a_href a)) ''mailto:'' \<and> \<not> startsWith (the (a_href a)) ''tel:'')"

definition seo_internal_links_deduction :: "dom \<Rightarrow> real" where
  "seo_internal_links_deduction d =
     (let internalLinks = length (filter seo_internal_href (a_with_href d)) in
      if internalLinks = 0 then 10 else 0)"

definition seo_viewport_deduction :: "dom \<Rightarrow> real" where
  "seo_viewport_deduction d = (if dom_viewport_count d = 0 then 8 else 0)"

definition seo_canonical_deduction :: "dom \<Rightarrow> real" where
  "seo_canonical_deduction d = (if dom_canonical_count d = 0 then 5 else 0)"

definition seo_og_deduction :: "dom \<Rightarrow> real" where
  "seo_og_deduction d = (if dom_og_count d = 0 then 5 else 0)"

definition seo_structured_data_deduction :: "dom \<Rightarrow> real" where
  "seo_structured_data_deduction d = (if dom_jsonld_count d = 0 then 5 else 0)"

text \<open>\<open>calculateSEOScore(page$)\<close>\<close>

definition calculateSEOScore :: "dom \<Rightarrow> int" where
  "calculateSEOScore d =
     (let score = 100;
          deductions = 0 + seo_title_deduction d + seo_description_deduction d
                       + seo_h1_deduction d + seo_hierarchy_deduction d
                       + alt_deduction 0.15 (dom_img_alt d) + seo_internal_links_deduction d
                       + seo_viewport_deduction d + seo_canonical_deduction d
                       + seo_og_deduction d + seo_structured_data_deduction d
      in max 0 (math_round (score - deductions)))"

section \<open>Platform functions\<close>

text \<open>
  The URL parser, the HTML parser, the regular expression engine and the random number
  generator belong to the platform and are parameters of the model.  \<open>new_URL s\<close> is
  \<open>new URL(s)\<close> and \<open>new_URL_base href base\<close> is \<open>new URL(href, base)\<close>; \<open>None\<close> stands
  for the \<open>TypeError\<close> the constructor throws.  \<open>link_pattern_matches html\<close> gives, for each
  of the three patterns of \<open>extractLinksFromText\<close> in turn, the successive matches as
  pairs of the groups \<open>match[1]\<close> and \<open>match[2]\<close>.  \<open>math_random k\<close> is the value of the
  \<open>k\<close>-th call of \<open>Math.random()\<close> that a function makes, counted from 0.
\<close>

record parsed_url =
  u_href :: string
  u_protocol :: string
  u_host :: string
  u_hostname :: string

record platform =
  new_URL :: "string \<Rightarrow> parsed_url option"
  new_URL_base :: "string \<Rightarrow> string \<Rightarrow> parsed_url option"
  cheerio_load :: "string \<Rightarrow> dom"
  link_pattern_matches :: "string \<Rightarrow> (string \<times> string option) list list"
  math_random :: "nat \<Rightarrow> real"

definition invalid_url_error :: js_error where
  "invalid_url_error = \<lparr> err_name = ''TypeError'', err_message = ''Invalid URL'' \<rparr>"

section \<open>The response of a route\<close>

text \<open>
  \<open>NextResponse.json(body, {status})\<close>: the HTTP status (200 when none is given), the
  fields \<open>error\<close>, \<open>status\<close>, \<open>method\<close> and \<open>note\<close> of the body when it has them, and the
  rest of the body as the payload.  Time stamps are left out.
\<close>

record 'p api_response =
  http_status :: nat
  rs_error :: "string option"
  rs_status :: "string option"
  rs_method :: "string option"
  rs_note :: "string option"
  rs_payload :: "'p option"

definition error_response :: "nat \<Rightarrow> string \<Rightarrow> 'p api_response" where
  "error_response code msg =
     \<lparr> http_status = code, rs_error = Some msg, rs_status = None, rs_method = None,
       rs_note = None, rs_payload = None \<rparr>"

text \<open>
  The target URL that three of the routes build from the \<open>url\<close> of the request body.
\<close>

definition normalize_target :: "string \<Rightarrow> string" where
  "normalize_target url =
     (let targetUrl = trim url in
      if \<not> startsWith targetUrl ''http://'' \<and> \<not> startsWith targetUrl ''https://''
      then ''https://'' @ targetUrl
      else targetUrl)"

section \<open>Quick links\<close>

record link =
  link_url :: string
  link_text :: string
  link_title :: string

text \<open>\<open>xs.some((link) => link.url === u)\<close>\<close>

definition has_url :: "string \<Rightarrow> link list \<Rightarrow> bool" where
  "has_url u xs = list_ex (\<lambda>l. link_url l = u) xs"

definition skip_href :: "string option \<Rightarrow> bool" where
  "skip_href href =
     (\<not> truthy href \<or> startsWith (the href) ''#'' \<or> startsWith (the href) ''javascript:''
      \<or> startsWith (the href) ''mailto:'')"

text \<open>
  A callback that may throw runs over the selected elements in order; an exception ends
  the iteration and propagates.
\<close>

fun each_element :: "('a \<Rightarrow> 's \<Rightarrow> js_error + 's) \<Rightarrow> 'a list \<Rightarrow> 's \<Rightarrow> js_error + 's" where
  "each_element f [] s = Inr s"
| "each_element f (x # xs) s =
     (case f x s of Inl e \<Rightarrow> Inl e | Inr s' \<Rightarrow> each_element f xs s')"

text \<open>
  The callback of \<open>$("a[href]").each\<close> in the quick-links and the full-analysis routes.
  They differ in the text of a link without text: "No text" in the first, empty in the
  second.  The state is the pair of \<open>internal_links\<close> and \<open>external_links\<close>.
  \<open>new URL(absoluteUrl).hostname\<close> is outside the callback's \<open>try\<close>.
\<close>

definition link_callback ::
  "platform \<Rightarrow> string \<Rightarrow> string \<Rightarrow> string \<Rightarrow> anchor \<Rightarrow> link list \<times> link list
     \<Rightarrow> js_error + (link list \<times> link list)" where
  "link_callback P targetUrl baseDomain noText a st =
     (if skip_href (a_href a) then Inr st
      else
        case new_URL_base P (the (a_href a)) targetUrl of
          None \<Rightarrow> Inr st
        | Some u \<Rightarrow>
            (let absoluteUrl = u_href u;
                 linkData = \<lparr> link_url = absoluteUrl,
                              link_text = or_str (Some (substring0 100 (trim (a_text a)))) noText,
                              link_title = or_str (a_title a) '''' \<rparr>
             in case new_URL P absoluteUrl of
                  None \<Rightarrow> Inl invalid_url_error
                | Some v \<Rightarrow>
                    if u_hostname v = baseDomain then
                      (if \<not> has_url absoluteUrl (fst st)
                       then Inr (fst st @ [linkData], snd st) else Inr st)
                    else
                      (if \<not> has_url absoluteUrl (snd st)
                       then Inr (fst st, snd st @ [linkData]) else Inr st)))"

text \<open>
  The structured tier: \<open>cheerio.load\<close>, the host name of the target, then the callback
  on every \<open>a[href]\<close>.
\<close>

definition cheerio_links ::
  "platform \<Rightarrow> string \<Rightarrow> string \<Rightarrow> string \<Rightarrow> js_error + (link list \<times> link list)" where
  "cheerio_links P noText html targetUrl =
     (let d = cheerio_load P html in
      case new_URL P targetUrl of
        None \<Rightarrow> Inl invalid_url_error
      | Some b \<Rightarrow>
          each_element (link_callback P targetUrl (u_hostname b) noText) (a_with_href d) ([], []))"

text \<open>
  One match of the pattern tier.  The state is \<open>foundUrls\<close>, \<open>internal_links\<close> and
  \<open>external_links\<close>.  Both URL constructions are inside the inner \<open>try\<close>, whose \<open>catch\<close>
  skips the match; \<open>foundUrls.add\<close> has happened by the time the second one runs.
\<close>

definition pattern_match_step ::
  "platform \<Rightarrow> string \<Rightarrow> string \<Rightarrow> string \<times> string option
     \<Rightarrow> string list \<times> link list \<times> link list \<Rightarrow> string list \<times> link list \<times> link list" where
  "pattern_match_step P baseUrl baseDomain m st =
     (let href = fst m;
          text = or_str (snd m) '''';
          foundUrls = fst st; internal = fst (snd st); external = snd (snd st)
      in
      if skip_href (Some href) then st
      else
        case new_URL_base P href baseUrl of
          None \<Rightarrow> st
        | Some u \<Rightarrow>
            (let absoluteUrl = u_href u in
             if absoluteUrl \<in> set foundUrls then st
             else
               (let foundUrls' = foundUrls @ [absoluteUrl];
                    linkData = \<lparr> link_url = absoluteUrl,
                                 link_text = or_str (Some (substring0 100 (trim text))) ''No text'',
                                 link_title = '''' \<rparr>
                in case new_URL P absoluteUrl of
                     None \<Rightarrow> (foundUrls', internal, external)
                   | Some v \<Rightarrow>
                       if u_hostname v = baseDomain
                       then (foundUrls', internal @ [linkData], external)
                       else (foundUrls', internal, external @ [linkData]))))"

text \<open>
  \<open>extractLinksFromText(html, baseUrl)\<close>: the three patterns one after the other, each
  over all its matches.  The outer \<open>catch\<close> is reached when \<open>baseUrl\<close> does not parse.
\<close>

definition extractLinksFromText :: "platform \<Rightarrow> string \<Rightarrow> string \<Rightarrow> link list \<times> link list" where
  "extractLinksFromText P html baseUrl =
     (case new_URL P baseUrl of
        None \<Rightarrow> ([], [])
      | Some b \<Rightarrow>
          snd (foldl (\<lambda>st m. pattern_match_step P baseUrl (u_hostname b) m st) ([], [], [])
                 (concat (link_pattern_matches P html))))"

record links_payload =
  internal_links :: "link list"
  external_links :: "link list"
  total :: nat

text \<open>\<open>Math.floor(Math.random() * n) + k\<close>, as a natural number.\<close>

definition random_int :: "real \<Rightarrow> nat \<Rightarrow> nat \<Rightarrow> nat" where
  "random_int r n k = nat (\<lfloor>r * real n\<rfloor> + int k)"

definition generateFallbackData :: "platform \<Rightarrow> string \<Rightarrow> js_error + links_payload" where
  "generateFallbackData P url =
     (case new_URL P url of
        None \<Rightarrow> Inl invalid_url_error
      | Some u \<Rightarrow>
          (let domain = u_hostname u;
               isLargesite = (str_includes domain ''amazon'' \<or> str_includes domain ''google''
                   \<or> str_includes domain ''facebook'' \<or> str_includes domain ''microsoft''
                   \<or> str_includes domain ''apple'' \<or> str_includes domain ''netflix'');
               baseInternal = (if isLargesite then random_int (math_random P 0) 50 20
                               else random_int (math_random P 0) 20 5);
               baseExternal = (if isLargesite then random_int (math_random P 1) 30 10
                               else random_int (math_random P 1) 15 2);
               internal = map (\<lambda>i.
                   \<lparr> link_url = url @ (if i = 0 then '''' else ''/'' @
                        [''about'', ''contact'', ''services'', ''products'', ''blog'', ''news'',
                         ''support'', ''careers''] ! (i mod 8)),
                     link_text = or_str (Some ([''Home'', ''About Us'', ''Contact'', ''Services'',
                         ''Products'', ''Blog'', ''News'', ''Support'', ''Careers''] ! (i mod 9)))
                         (''Page '' @ show_nat (i + 1)),
                     link_title = ''Internal link '' @ show_nat (i + 1) \<rparr>) [0..<baseInternal];
               external = map (\<lambda>i.
                   \<lparr> link_url = ''https://'' @ [''facebook.com'', ''twitter.com'', ''linkedin.com'',
                         ''instagram.com'', ''youtube.com'', ''github.com''] ! (i mod 6),
                     link_text = or_str (Some ([''Facebook'', ''Twitter'', ''LinkedIn'',
                         ''Instagram'', ''YouTube'', ''GitHub''] ! (i mod 6)))
                         (''External '' @ show_nat (i + 1)),
                     link_title = ''External link '' @ show_nat (i + 1) \<rparr>) [0..<baseExternal]
           in Inr \<lparr> internal_links = internal, external_links = external,
                    total = length internal + length external \<rparr>))"

definition links_success :: "string \<Rightarrow> link list \<Rightarrow> link list \<Rightarrow> links_payload api_response" where
  "links_success method internal external =
     \<lparr> http_status = 200, rs_error = None, rs_status = Some ''success'', rs_method = Some method,
       rs_note = None,
       rs_payload = Some \<lparr> internal_links = internal, external_links = external,
                            total = length internal + length external \<rparr> \<rparr>"

text \<open>The response of the outermost \<open>catch\<close> of the quick-links route.\<close>

definition quick_error_fallback :: "string option \<Rightarrow> js_error \<Rightarrow> links_payload api_response" where
  "quick_error_fallback requestUrl e =
     \<lparr> http_status = 200,
       rs_error = Some (''Analysis failed: '' @ err_message e),
       rs_status = Some ''partial_success'',
       rs_method = Some ''error_fallback'',
       rs_note = Some (''Analysis partially completed. Original error: '' @ err_message e),
       rs_payload = Some
         \<lparr> internal_links = [\<lparr> link_url = or_str requestUrl '''', link_text = ''Home'',
                                link_title = ''Homepage'' \<rparr>],
           external_links = [\<lparr> link_url = ''https://www.google.com'', link_text = ''Google'',
                                link_title = ''Google Search'' \<rparr>],
           total = 2 \<rparr> \<rparr>"

text \<open>
  The final fallback of the quick-links route.  \<open>generateFallbackData\<close> is called outside
  the inner \<open>try\<close>, so what it throws reaches the outermost \<open>catch\<close>.
\<close>

definition quick_fallback :: "platform \<Rightarrow> string option \<Rightarrow> string \<Rightarrow> links_payload api_response" where
  "quick_fallback P requestUrl targetUrl =
     (case generateFallbackData P targetUrl of
        Inl e \<Rightarrow> quick_error_fallback requestUrl e
      | Inr fallbackData \<Rightarrow>
          \<lparr> http_status = 200, rs_error = None, rs_status = Some ''success'',
            rs_method = Some ''intelligent_estimation'',
            rs_note = Some ''Website blocked direct access. Showing realistic estimates based on site analysis.'',
            rs_payload = Some \<lparr> internal_links = internal_links fallbackData,
                                 external_links = external_links fallbackData,
                                 total = length (internal_links fallbackData)
                                         + length (external_links fallbackData) \<rparr> \<rparr>)"

text \<open>
  \<open>POST\<close> of the quick-links route.  \<open>url\<close> is the field of the request body
  (\<open>None\<close> when it is absent), \<open>requestUrl\<close> is \<open>request.url\<close>.
\<close>

definition quick_links_POST ::
  "platform \<Rightarrow> 'w transport \<Rightarrow> string option \<Rightarrow> string option \<Rightarrow> 'w net
     \<Rightarrow> links_payload api_response \<times> 'w net" where
  "quick_links_POST P tr requestUrl url n =
     (if \<not> truthy url then (error_response 400 ''URL is required'', n)
      else
        (let targetUrl = normalize_target (the url) in
         case fetchWithStrategies tr targetUrl 3 n of
           (Inl fetchError, n') \<Rightarrow> (quick_fallback P requestUrl targetUrl, n')
         | (Inr response, n') \<Rightarrow>
             (let html = resp_body response;
                  cheerio = cheerio_links P ''No text'' html targetUrl;
                  found = (case cheerio of
                             Inl cheerioError \<Rightarrow> False
                           | Inr ls \<Rightarrow> length (fst ls) > 0 \<or> length (snd ls) > 0)
              in if found then
                   (links_success ''cheerio_parsing'' (fst (projr cheerio)) (snd (projr cheerio)), n')
                 else
                   (let patternResults = extractLinksFromText P html targetUrl in
                    if length (fst patternResults) > 0 \<or> length (snd patternResults) > 0
                    then (links_success ''pattern_extraction'' (fst patternResults)
                            (snd patternResults), n')
                    else (quick_fallback P requestUrl targetUrl, n')))))"

section \<open>Full analysis\<close>

text \<open>
  \<open>POST\<close> of the full-analysis route: one plain \<open>fetch\<close>, no retry and no estimator.
  Everything that throws, a response that is not ok included, ends in the route's only
  \<open>catch\<close>, which answers with status 500.  The payload keeps the links and the
  accessibility figures; the CMS, analytics, heading, form and meta tag summaries of the
  body are computed from the page alone and are left out.
\<close>

record full_payload =
  fp_url :: string
  fp_total_links :: nat
  fp_internal_links :: "link list"
  fp_external_links :: "link list"
  fp_accessibility_score :: int
  fp_issues_found :: nat

definition full_accessibility_issues :: "dom \<Rightarrow> nat" where
  "full_accessibility_issues d =
     length (filter (\<lambda>alt. \<not> truthy alt) (dom_img_alt d))
     + length (filter (\<lambda>a. trim (a_text a) = [] \<and> \<not> truthy (a_aria_label a)) (dom_a d))"

text \<open>\<open>Math.max(0, 100 - accessibility_issues * 5)\<close>\<close>

definition full_accessibility_score :: "dom \<Rightarrow> int" where
  "full_accessibility_score d = max 0 (100 - int (full_accessibility_issues d) * 5)"

definition full_catch :: "js_error \<Rightarrow> full_payload api_response" where
  "full_catch e = error_response 500 (''Analysis failed: '' @ err_message e)"

definition full_analysis_POST ::
  "platform \<Rightarrow> 'w transport \<Rightarrow> string option \<Rightarrow> 'w net \<Rightarrow> full_payload api_response \<times> 'w net" where
  "full_analysis_POST P tr url n =
     (if \<not> truthy url then (error_response 400 ''URL is required'', n)
      else
        (let targetUrl = normalize_target (the url) in
         case do_fetch tr \<lparr> rq_url = targetUrl, rq_strategy = None \<rparr> n of
           (Rejected e, n') \<Rightarrow> (full_catch e, n')
         | (Response response, n') \<Rightarrow>
             if \<not> resp_ok response then (full_catch (http_error response), n')
             else
               (let html = resp_body response;
                    d = cheerio_load P html
                in case cheerio_links P '''' html targetUrl of
                     Inl e \<Rightarrow> (full_catch e, n')
                   | Inr ls \<Rightarrow>
                       (\<lparr> http_status = 200, rs_error = None, rs_status = Some ''success'',
                          rs_method = None, rs_note = None,
                          rs_payload = Some
                            \<lparr> fp_url = targetUrl,
                              fp_total_links = length (fst ls) + length (snd ls),
                              fp_internal_links = fst ls,
                              fp_external_links = snd ls,
                              fp_accessibility_score = full_accessibility_score d,
                              fp_issues_found = full_accessibility_issues d \<rparr> \<rparr>, n'))))"

section \<open>Deep analysis\<close>

text \<open>
  The callback that collects \<open>internalLinks\<close>.  \<open>baseUrl\<close> is
  \<open>`${targetUrl.protocol}//${targetUrl.host}`\<close>; a link is kept when its full URL starts
  with \<open>baseUrl\<close> and is not in the list yet.  The callback has no \<open>try\<close>: what
  \<open>new URL(href, targetUrl.href)\<close> throws leaves the iteration.
\<close>

definition deep_baseUrl :: "parsed_url \<Rightarrow> string" where
  "deep_baseUrl targetUrl = u_protocol targetUrl @ ''//'' @ u_host targetUrl"

definition deep_link_callback ::
  "platform \<Rightarrow> parsed_url \<Rightarrow> anchor \<Rightarrow> link list \<Rightarrow> js_error + link list" where
  "deep_link_callback P targetUrl a internalLinks =
     (let href = a_href a;
          text = trim (a_text a);
          title = or_str (a_title a) '''';
          baseUrl = deep_baseUrl targetUrl
      in
      if truthy href then
        (let fullUrl =
               (if startsWith (the href) ''http'' then
                  (if startsWith (the href) baseUrl then Inr (Some (the href)) else Inr None)
                else if startsWith (the href) ''/'' then Inr (Some (baseUrl @ the href))
                else if startsWith (the href) ''#'' \<or> startsWith (the href) ''mailto:''
                        \<or> startsWith (the href) ''tel:''
                then Inr None
                else (case new_URL_base P (the href) (u_href targetUrl) of
                        None \<Rightarrow> Inl invalid_url_error
                      | Some u \<Rightarrow> Inr (Some (u_href u))))
         in case fullUrl of
              Inl e \<Rightarrow> Inl e
            | Inr None \<Rightarrow> Inr internalLinks
            | Inr (Some f) \<Rightarrow>
                if startsWith f baseUrl \<and> \<not> has_url f internalLinks
                then Inr (internalLinks @ [\<lparr> link_url = f, link_text = substring0 100 text,
                                              link_title = substring0 100 title \<rparr>])
                else Inr internalLinks)
      else Inr internalLinks)"

definition deep_internal_links :: "platform \<Rightarrow> parsed_url \<Rightarrow> dom \<Rightarrow> js_error + link list" where
  "deep_internal_links P targetUrl d =
     each_element (deep_link_callback P targetUrl) (a_with_href d) []"

record analyzed_page =
  ap_url :: string
  ap_text :: string
  ap_title :: string
  ap_accessibility_score :: int
  ap_seo_score :: int

record failed_page =
  fl_url :: string
  fl_text :: string
  fl_error :: string

text \<open>
  The loop over \<open>linksToAnalyze\<close>: a page that cannot be fetched goes to \<open>failedData\<close>,
  a fetched page to \<open>analyzedData\<close> with its two scores.  The element counts of a page
  and the summary over the pages are left out.
\<close>

fun analyze_links ::
  "platform \<Rightarrow> 'w transport \<Rightarrow> link list \<Rightarrow> analyzed_page list \<times> failed_page list \<Rightarrow> 'w net
     \<Rightarrow> (analyzed_page list \<times> failed_page list) \<times> 'w net" where
  "analyze_links P tr [] acc n = (acc, n)"
| "analyze_links P tr (l # ls) acc n =
     (case do_fetch tr \<lparr> rq_url = link_url l, rq_strategy = None \<rparr> n of
        (Rejected e, n') \<Rightarrow>
          analyze_links P tr ls
            (fst acc, snd acc @ [\<lparr> fl_url = link_url l, fl_text = link_text l,
                                   fl_error = err_message e \<rparr>]) n'
      | (Response response, n') \<Rightarrow>
          if \<not> resp_ok response then
            analyze_links P tr ls
              (fst acc, snd acc @ [\<lparr> fl_url = link_url l, fl_text = link_text l,
                                     fl_error = ''HTTP '' @ show_nat (resp_status response) \<rparr>]) n'
          else
            (let page = cheerio_load P (resp_body response) in
             analyze_links P tr ls
               (fst acc @ [\<lparr> ap_url = link_url l, ap_text = link_text l, ap_title = link_title l,
                              ap_accessibility_score = calculateAccessibilityScore_page page,
                              ap_seo_score = calculateSEOScore page \<rparr>], snd acc) n'))"

record deep_payload =
  dp_base_url :: string
  dp_url :: string
  dp_total_internal_links :: nat
  dp_analyzed_data :: "analyzed_page list"
  dp_failed_data :: "failed_page list"

definition deep_catch :: "js_error \<Rightarrow> deep_payload api_response" where
  "deep_catch e = error_response 500 (''Analysis failed: '' @ err_message e)"

text \<open>
  \<open>POST\<close> of the deep-analysis route.  The URL is validated with \<open>new URL(url)\<close>; the
  main page is fetched once, and a response that is not ok is answered with status 400.
\<close>

definition deep_analysis_POST ::
  "platform \<Rightarrow> 'w transport \<Rightarrow> string option \<Rightarrow> 'w net \<Rightarrow> deep_payload api_response \<times> 'w net" where
  "deep_analysis_POST P tr url n =
     (if \<not> truthy url then (error_response 400 ''URL is required'', n)
      else
        case new_URL P (the url) of
          None \<Rightarrow> (error_response 400 ''Invalid URL format'', n)
        | Some targetUrl \<Rightarrow>
            (case do_fetch tr \<lparr> rq_url = u_href targetUrl, rq_strategy = None \<rparr> n of
               (Rejected e, n') \<Rightarrow> (deep_catch e, n')
             | (Response mainPageResponse, n') \<Rightarrow>
                 if \<not> resp_ok mainPageResponse then
                   (error_response 400
                      (''Failed to fetch main page: '' @ show_nat (resp_status mainPageResponse)
                       @ '' '' @ resp_statusText mainPageResponse), n')
                 else
                   (case deep_internal_links P targetUrl
                           (cheerio_load P (resp_body mainPageResponse)) of
                      Inl e \<Rightarrow> (deep_catch e, n')
                    | Inr internalLinks \<Rightarrow>
                        (case analyze_links P tr (take 15 internalLinks) ([], []) n' of
                           (acc, n'') \<Rightarrow>
                             (\<lparr> http_status = 200, rs_error = None,
                                rs_status = Some ''completed'', rs_method = None, rs_note = None,
                                rs_payload = Some
                                  \<lparr> dp_base_url = deep_baseUrl targetUrl,
                                    dp_url = u_href targetUrl,
                                    dp_total_internal_links = length internalLinks,
                                    dp_analyzed_data = fst acc,
                                    dp_failed_data = snd acc \<rparr> \<rparr>, n'')))))"

section \<open>Form validation: the crawl\<close>

text \<open>
  \<open>extractLinksFromHtml(html, baseUrl)\<close>: the same-host links of the page, as a set in
  insertion order, cut to 20.  The three URL constructions are inside the callback's
  \<open>try\<close>, so a link that fails any of them is skipped.  The regular expression branch
  runs only when cheerio itself throws, which the parser of the model never does.
\<close>

definition same_host_link :: "platform \<Rightarrow> string \<Rightarrow> anchor \<Rightarrow> string list" where
  "same_host_link P baseUrl a =
     (if \<not> skip_href (a_href a) then
        (case new_URL_base P (the (a_href a)) baseUrl of
           None \<Rightarrow> []
         | Some u \<Rightarrow>
             (case new_URL P (u_href u) of
                None \<Rightarrow> []
              | Some urlObj \<Rightarrow>
                  (case new_URL P baseUrl of
                     None \<Rightarrow> []
                   | Some b \<Rightarrow> if u_hostname urlObj = u_hostname b then [u_href u] else [])))
      else [])"

definition extractLinksFromHtml :: "platform \<Rightarrow> string \<Rightarrow> string \<Rightarrow> string list" where
  "extractLinksFromHtml P html baseUrl =
     take 20 (unique_in_order
       (concat (map (same_host_link P baseUrl) (a_with_href (cheerio_load P html)))))"

record crawl_state =
  allForms :: "form_result list"
  crawledPages :: nat
  successfulPages :: nat
  processedUrls :: "string list"

text \<open>
  The loop over the candidate links.  Its first statement is
  \<open>if (processedUrls.has(link) || crawledPages >= maxPages) break\<close>: either condition
  ends the loop.  A page that cannot be fetched is counted in \<open>crawledPages\<close> and added to
  \<open>processedUrls\<close> all the same.  Sub-pages are fetched with two attempts.
\<close>

fun crawl_loop ::
  "platform \<Rightarrow> 'w transport \<Rightarrow> nat \<Rightarrow> string list \<Rightarrow> crawl_state \<Rightarrow> 'w net
     \<Rightarrow> crawl_state \<times> 'w net" where
  "crawl_loop P tr maxPages [] cs n = (cs, n)"
| "crawl_loop P tr maxPages (link # links) cs n =
     (if link \<in> set (processedUrls cs) \<or> crawledPages cs \<ge> maxPages then (cs, n)
      else
        case fetchWithStrategies tr link 2 n of
          (Inr response, n') \<Rightarrow>
            (let pageForms = analyzeForms (dom_forms (cheerio_load P (resp_body response))) link in
             crawl_loop P tr maxPages links
               (cs \<lparr> allForms := allForms cs @ pageForms,
                     successfulPages := successfulPages cs + 1,
                     crawledPages := crawledPages cs + 1,
                     processedUrls := processedUrls cs @ [link] \<rparr>) n')
        | (Inl error, n') \<Rightarrow>
            crawl_loop P tr maxPages links
              (cs \<lparr> crawledPages := crawledPages cs + 1,
                    processedUrls := processedUrls cs @ [link] \<rparr>) n')"

text \<open>
  The crawl of one seed whose main page has been fetched: the main page counts as the
  first crawled page, then the first \<open>maxPages - 1\<close> candidates are looped over.
\<close>

definition crawl_from_main ::
  "platform \<Rightarrow> 'w transport \<Rightarrow> nat \<Rightarrow> string \<Rightarrow> string \<Rightarrow> 'w net \<Rightarrow> crawl_state \<times> 'w net" where
  "crawl_from_main P tr maxPages targetUrl mainHtml n =
     (let mainPageForms = analyzeForms (dom_forms (cheerio_load P mainHtml)) targetUrl;
          cs = \<lparr> allForms = mainPageForms, crawledPages = 1, successfulPages = 1,
                 processedUrls = [targetUrl] \<rparr>;
          internalLinks = extractLinksFromHtml P mainHtml targetUrl
      in crawl_loop P tr maxPages (take (maxPages - 1) internalLinks) cs n)"

section \<open>Form validation: the route\<close>

record form_payload =
  fv_url :: string
  total_pages_crawled :: nat
  successful_pages :: "nat option"
  forms_found :: nat
  forms_with_multiple_inputs :: nat
  detailed_forms :: "form_result list"
  form_types_breakdown :: "(string \<times> nat) list"
  pages_with_forms :: "string list"

text \<open>\<open>breakdown[type] = (breakdown[type] || 0) + 1\<close> on an object with ordered keys.\<close>

definition count_type :: "(string \<times> nat) list \<Rightarrow> string \<Rightarrow> (string \<times> nat) list" where
  "count_type breakdown type =
     (case map_of breakdown type of
        None \<Rightarrow> breakdown @ [(type, 1)]
      | Some c \<Rightarrow> map (\<lambda>kv. if fst kv = type then (fst kv, snd kv + 1) else kv) breakdown)"

text \<open>
  \<open>generateFormEstimates(url)\<close>.  The calls of \<open>Math.random()\<close> in the order the function
  makes them: one for \<open>estimatedForms\<close>, one per form type, five per estimated form and
  one for \<open>total_pages_crawled\<close>.
\<close>

definition estimate_form ::
  "platform \<Rightarrow> string \<Rightarrow> string list \<Rightarrow> nat \<Rightarrow> nat \<Rightarrow> form_result" where
  "estimate_form P url formTypes k i =
     \<lparr> page_url = (if i = 0 then url
                    else url @ ''/'' @ [''contact'', ''login'', ''register'', ''checkout'',
                                        ''support''] ! (i mod 5)),
       form_index = i,
       input_count = random_int (math_random P (k + 5 * i)) 6 2,
       input_types = take (random_int (math_random P (k + 5 * i + 1)) 3 2)
                       [''text'', ''email'', ''password'', ''submit''],
       form_method = (if math_random P (k + 5 * i + 2) > 0.3 then ''POST'' else ''GET''),
       form_action = ''/submit'',
       form_classification = formTypes ! (i mod length formTypes),
       has_labels = (math_random P (k + 5 * i + 3) > 0.2),
       accessibility_score = int (random_int (math_random P (k + 5 * i + 4)) 40 60),
       form_inputs = None \<rparr>"

definition generateFormEstimates :: "platform \<Rightarrow> string \<Rightarrow> js_error + form_payload" where
  "generateFormEstimates P url =
     (case new_URL P url of
        None \<Rightarrow> Inl invalid_url_error
      | Some u \<Rightarrow>
          (let domain = u_hostname u;
               isEcommerce = (str_includes domain ''shop'' \<or> str_includes domain ''store''
                              \<or> str_includes domain ''buy'');
               isBusiness = (str_includes domain ''business'' \<or> str_includes domain ''company''
                             \<or> str_includes domain ''corp'');
               estimatedForms0 = random_int (math_random P 0) 5 2;
               formsWithMultipleInputs0 = nat \<lfloor>real estimatedForms0 * 0.7\<rfloor>;
               estimatedForms = (if isEcommerce then estimatedForms0 + 3 else estimatedForms0);
               formsWithMultipleInputs = (if isEcommerce then formsWithMultipleInputs0 + 2
                                          else formsWithMultipleInputs0);
               formTypes = [''Contact Form'', ''Newsletter Signup'', ''Search Form'']
                 @ (if isEcommerce then [''Registration Form'', ''Login Form'', ''Payment Form'']
                    else [])
                 @ (if isBusiness then [''Quote Request Form'', ''Support Form''] else []);
               formTypesBreakdown =
                 map (\<lambda>j. (formTypes ! j, random_int (math_random P (1 + j)) 2 1))
                   [0..<length formTypes];
               k = 1 + length formTypes;
               detailedForms = map (estimate_form P url formTypes k) [0..<formsWithMultipleInputs]
           in Inr \<lparr> fv_url = url,
                    total_pages_crawled =
                      random_int (math_random P (k + 5 * formsWithMultipleInputs)) 10 5,
                    successful_pages = None,
                    forms_found = estimatedForms,
                    forms_with_multiple_inputs = formsWithMultipleInputs,
                    detailed_forms = detailedForms,
                    form_types_breakdown = formTypesBreakdown,
                    pages_with_forms = map page_url detailedForms \<rparr>))"

text \<open>The response of the outermost \<open>catch\<close> of the form-validation route.\<close>

definition form_error_fallback :: "string option \<Rightarrow> js_error \<Rightarrow> form_payload api_response" where
  "form_error_fallback requestUrl e =
     \<lparr> http_status = 200,
       rs_error = Some (''Form validation failed: '' @ err_message e),
       rs_status = Some ''partial_success'',
       rs_method = Some ''error_fallback'',
       rs_note = Some (''Analysis partially completed. Original error: '' @ err_message e),
       rs_payload = Some
         \<lparr> fv_url = or_str requestUrl '''',
           total_pages_crawled = 1,
           successful_pages = None,
           forms_found = 2,
           forms_with_multiple_inputs = 1,
           detailed_forms =
             [\<lparr> page_url = or_str requestUrl '''', form_index = 0, input_count = 3,
                 input_types = [''text'', ''email'', ''submit''], form_method = ''POST'',
                 form_action = ''/contact'', form_classification = ''Contact Form'',
                 has_labels = True, accessibility_score = 75, form_inputs = None \<rparr>],
           form_types_breakdown = [(''Contact Form'', 1)],
           pages_with_forms = [or_str requestUrl ''''] \<rparr> \<rparr>"

text \<open>
  The \<open>catch\<close> of the crawl: the estimator.  It runs inside the outer \<open>try\<close>, so what
  \<open>generateFormEstimates\<close> throws reaches the outermost \<open>catch\<close>.
\<close>

definition form_fallback :: "platform \<Rightarrow> string option \<Rightarrow> string \<Rightarrow> form_payload api_response" where
  "form_fallback P requestUrl targetUrl =
     (case generateFormEstimates P targetUrl of
        Inl e \<Rightarrow> form_error_fallback requestUrl e
      | Inr estimates \<Rightarrow>
          \<lparr> http_status = 200, rs_error = None, rs_status = Some ''success'',
            rs_method = Some ''intelligent_estimation'',
            rs_note = Some ''Website blocked direct access. Showing realistic estimates based on domain analysis.'',
            rs_payload = Some estimates \<rparr>)"

definition maxPages_const :: nat where
  "maxPages_const = 10"

text \<open>\<open>POST\<close> of the form-validation route.\<close>

definition form_validation_POST ::
  "platform \<Rightarrow> 'w transport \<Rightarrow> string option \<Rightarrow> string option \<Rightarrow> 'w net
     \<Rightarrow> form_payload api_response \<times> 'w net" where
  "form_validation_POST P tr requestUrl url n =
     (if \<not> truthy url then (error_response 400 ''URL is required'', n)
      else
        (let targetUrl = normalize_target (the url) in
         case fetchWithStrategies tr targetUrl 3 n of
           (Inl crawlingError, n') \<Rightarrow> (form_fallback P requestUrl targetUrl, n')
         | (Inr mainResponse, n') \<Rightarrow>
             (case crawl_from_main P tr maxPages_const targetUrl (resp_body mainResponse) n' of
                (cs, n'') \<Rightarrow>
                  (let formsWithMultipleInputs = filter (\<lambda>f. input_count f \<ge> 2) (allForms cs);
                       formTypesBreakdown =
                         foldl count_type [] (map form_classification formsWithMultipleInputs);
                       pagesWithForms = unique_in_order (map page_url (allForms cs))
                   in (\<lparr> http_status = 200, rs_error = None, rs_status = Some ''success'',
                         rs_method = Some ''enhanced_crawling'', rs_note = None,
                         rs_payload = Some
                           \<lparr> fv_url = targetUrl,
                             total_pages_crawled = crawledPages cs,
                             successful_pages = Some (successfulPages cs),
                             forms_found = length (allForms cs),
                             forms_with_multiple_inputs = length formsWithMultipleInputs,
                             detailed_forms = formsWithMultipleInputs,
                             form_types_breakdown = formTypesBreakdown,
                             pages_with_forms = pagesWithForms \<rparr> \<rparr>, n'')))))"

section \<open>Link candidates\<close>

text \<open>
  To state what the three extraction loops compute, each element is given the link it
  proposes, if any, and the loops are compared with one insertion that appends a link
  unless its URL is already in the list.
\<close>

definition insert_new :: "link \<Rightarrow> link list \<Rightarrow> link list" where
  "insert_new l xs = (if has_url (link_url l) xs then xs else xs @ [l])"

definition dedup_links :: "link list \<Rightarrow> link list \<Rightarrow> link list" where
  "dedup_links xs ls = foldl (\<lambda>acc l. insert_new l acc) xs ls"

text \<open>
  The link an anchor proposes in the structured tier: none when the \<open>href\<close> is skipped
  or does not resolve.
\<close>

definition anchor_candidate :: "platform \<Rightarrow> string \<Rightarrow> string \<Rightarrow> anchor \<Rightarrow> link option" where
  "anchor_candidate P targetUrl noText a =
     (if skip_href (a_href a) then None
      else case new_URL_base P (the (a_href a)) targetUrl of
             None \<Rightarrow> None
           | Some u \<Rightarrow>
               Some \<lparr> link_url = u_href u,
                      link_text = or_str (Some (substring0 100 (trim (a_text a)))) noText,
                      link_title = or_str (a_title a) '''' \<rparr>)"

definition anchor_candidates :: "platform \<Rightarrow> string \<Rightarrow> string \<Rightarrow> anchor list \<Rightarrow> link list" where
  "anchor_candidates P targetUrl noText anchors =
     List.map_filter (anchor_candidate P targetUrl noText) anchors"

text \<open>The host name of an absolute URL is, or is not, the base domain.\<close>

definition is_internal :: "platform \<Rightarrow> string \<Rightarrow> link \<Rightarrow> bool" where
  "is_internal P baseDomain l =
     (case new_URL P (link_url l) of None \<Rightarrow> False | Some v \<Rightarrow> u_hostname v = baseDomain)"

definition is_external :: "platform \<Rightarrow> string \<Rightarrow> link \<Rightarrow> bool" where
  "is_external P baseDomain l =
     (case new_URL P (link_url l) of None \<Rightarrow> False | Some v \<Rightarrow> u_hostname v \<noteq> baseDomain)"

text \<open>The link a match proposes in the pattern tier.\<close>

definition match_candidate :: "platform \<Rightarrow> string \<Rightarrow> string \<times> string option \<Rightarrow> link option" where
  "match_candidate P baseUrl m =
     (if skip_href (Some (fst m)) then None
      else case new_URL_base P (fst m) baseUrl of
             None \<Rightarrow> None
           | Some u \<Rightarrow>
               Some \<lparr> link_url = u_href u,
                      link_text = or_str (Some (substring0 100 (trim (or_str (snd m) ''''))))
                                    ''No text'',
                      link_title = '''' \<rparr>)"

definition match_candidates ::
  "platform \<Rightarrow> string \<Rightarrow> (string \<times> string option) list \<Rightarrow> link list" where
  "match_candidates P baseUrl ms = List.map_filter (match_candidate P baseUrl) ms"

text \<open>
  The link an anchor proposes in the deep-analysis route: an exception when a relative
  reference does not resolve, none when the anchor is passed over.
\<close>

definition deep_candidate :: "platform \<Rightarrow> parsed_url \<Rightarrow> anchor \<Rightarrow> js_error + link option" where
  "deep_candidate P targetUrl a =
     (let href = a_href a;
          baseUrl = deep_baseUrl targetUrl;
          entry = (\<lambda>f. \<lparr> link_url = f, link_text = substring0 100 (trim (a_text a)),
                           link_title = substring0 100 (or_str (a_title a) '''') \<rparr>)
      in
      if \<not> truthy href then Inr None
      else if startsWith (the href) ''http'' then
        (if startsWith (the href) baseUrl then Inr (Some (entry (the href))) else Inr None)
      else if startsWith (the href) ''/'' then Inr (Some (entry (baseUrl @ the href)))
      else if startsWith (the href) ''#'' \<or> startsWith (the href) ''mailto:''
              \<or> startsWith (the href) ''tel:''
      then Inr None
      else (case new_URL_base P (the href) (u_href targetUrl) of
              None \<Rightarrow> Inl invalid_url_error
            | Some u \<Rightarrow> Inr (Some (entry (u_href u)))))"

definition deep_candidates :: "platform \<Rightarrow> parsed_url \<Rightarrow> anchor list \<Rightarrow> link list" where
  "deep_candidates P targetUrl anchors =
     List.map_filter (\<lambda>a. case deep_candidate P targetUrl a of Inl e \<Rightarrow> None | Inr c \<Rightarrow> c) anchors"


section \<open>Total fetch failure\<close>

text \<open>A transport that never answers with a 2xx response, whatever its state.\<close>

definition never_ok :: "'w transport \<Rightarrow> bool" where
  "never_ok tr = (\<forall>w rq r w'. tr w rq = (Response r, w') \<longrightarrow> \<not> resp_ok r)"

text \<open>
  The two shapes a response takes when the fetch has failed: the estimator's result,
  labelled as such, and a bare error.
\<close>

definition is_estimate :: "'p api_response \<Rightarrow> bool" where
  "is_estimate r =
     (http_status r = 200 \<and> rs_method r = Some ''intelligent_estimation''
      \<and> rs_status r = Some ''success'' \<and> rs_error r = None \<and> rs_payload r \<noteq> None)"

definition is_error_only :: "nat \<Rightarrow> 'p api_response \<Rightarrow> bool" where
  "is_error_only code r =
     (http_status r = code \<and> rs_error r \<noteq> None \<and> rs_method r = None
      \<and> rs_status r = None \<and> rs_payload r = None)"


section \<open>Example inputs\<close>

text \<open>
  A form with two bare \<open>input\<close> elements and nothing else: no labels, no required marker,
  no fieldset, no ARIA attribute and no specific input type.
\<close>

definition bare_input :: input_element where
  "bare_input = \<lparr> el_type_attr = None, el_tagName = Some ''INPUT'', el_name_attr = None,
     el_id_attr = None, el_label_for_text = '''', el_parent_label_text = None,
     el_placeholder = None, el_aria_label = None, el_required_attr = None \<rparr>"

definition bare_form :: form_element where
  "bare_form = \<lparr> fe_inputs = [bare_input, bare_input], fe_html = Some ''<input><input>'',
     fe_method_attr = None, fe_action_attr = None \<rparr>"

text \<open>
  A mock transport whose state counts the calls: the second call is answered with
  200, every other call with 403.
\<close>

definition second_call_ok :: "nat transport" where
  "second_call_ok w rq =
     (if w = 1
      then (Response \<lparr> resp_status = 200, resp_statusText = ''OK'', resp_body = ''<html></html>'' \<rparr>,
            Suc w)
      else (Response \<lparr> resp_status = 403, resp_statusText = ''Forbidden'', resp_body = '''' \<rparr>,
            Suc w))"

text \<open>The same with the fifth call, the mobile strategy of the second attempt.\<close>

definition fifth_call_ok :: "nat transport" where
  "fifth_call_ok w rq =
     (if w = 4
      then (Response \<lparr> resp_status = 200, resp_statusText = ''OK'', resp_body = ''<html></html>'' \<rparr>,
            Suc w)
      else (Response \<lparr> resp_status = 429, resp_statusText = ''Too Many Requests'', resp_body = '''' \<rparr>,
            Suc w))"

text \<open>
  A page without \<open>h1\<close>, without meta description and without viewport tag, that passes
  every other SEO check: a title of 36 characters, an \<open>h2\<close>, one image with \<open>alt\<close>, one
  relative link, a canonical link, one Open Graph tag and one JSON-LD block.
\<close>

definition page_no_h1_desc_viewport :: dom where
  "page_no_h1_desc_viewport =
     \<lparr> dom_a = [\<lparr> a_href = Some ''/about'', a_text = ''About'', a_title = None,
                  a_aria_label = None, a_aria_labelledby = None \<rparr>],
       dom_img_alt = [Some ''Logo''],
       dom_title_text = ''A title of thirty-six characters ok.'',
       dom_meta_description = None,
       dom_h1_text = [],
       dom_h2_count = 1, dom_h3_count = 2, dom_h4_count = 0,
       dom_inputs = [],
       dom_html_lang = Some ''en'',
       dom_viewport_count = 0, dom_canonical_count = 1, dom_og_count = 1, dom_jsonld_count = 1,
       dom_forms = [] \<rparr>"

text \<open>
  A stand-in for the platform's URL parser on plain \<open>http\<close> and \<open>https\<close> URLs with a
  lower-case host and no port, user info, query or fragment: the host is what lies
  between the scheme and the next slash, and an empty path becomes \<open>/\<close>.  A host that is
  empty or contains white space does not parse.  References are resolved when they are
  absolute or start with a slash; the examples use no other kind.
\<close>

definition demo_new_URL :: "string \<Rightarrow> parsed_url option" where
  "demo_new_URL s =
     (let scheme = (if startsWith s ''https://'' then Some ''https:''
                    else if startsWith s ''http://'' then Some ''http:'' else None)
      in case scheme of
           None \<Rightarrow> None
         | Some p \<Rightarrow>
             (let rest = drop (length p + 2) s;
                  host = takeWhile (\<lambda>c. c \<noteq> CHR ''/'') rest;
                  path = dropWhile (\<lambda>c. c \<noteq> CHR ''/'') rest
              in if host = [] \<or> list_ex is_space host then None
                 else Some \<lparr> u_href = p @ ''//'' @ host @ (if path = [] then ''/'' else path),
                             u_protocol = p, u_host = host, u_hostname = host \<rparr>))"

definition demo_new_URL_base :: "string \<Rightarrow> string \<Rightarrow> parsed_url option" where
  "demo_new_URL_base href base =
     (if startsWith href ''http://'' \<or> startsWith href ''https://'' then demo_new_URL href
      else if startsWith href ''/'' then
        (case demo_new_URL base of
           None \<Rightarrow> None
         | Some b \<Rightarrow> demo_new_URL (u_protocol b @ ''//'' @ u_host b @ href))
      else None)"

text \<open>
  A platform on which every document parses to the given page, no pattern matches and
  every random number is one half.
\<close>

definition demo_platform :: "dom \<Rightarrow> platform" where
  "demo_platform page =
     \<lparr> new_URL = demo_new_URL, new_URL_base = demo_new_URL_base,
       cheerio_load = (\<lambda>html. page),
       link_pattern_matches = (\<lambda>html. replicate 3 []),
       math_random = (\<lambda>k. 1 / 2) \<rparr>"

definition empty_page :: dom where
  "empty_page =
     \<lparr> dom_a = [], dom_img_alt = [], dom_title_text = '''', dom_meta_description = None,
       dom_h1_text = [], dom_h2_count = 0, dom_h3_count = 0, dom_h4_count = 0,
       dom_inputs = [], dom_html_lang = None, dom_viewport_count = 0,
       dom_canonical_count = 0, dom_og_count = 0, dom_jsonld_count = 0, dom_forms = [] \<rparr>"

definition plain_anchor :: "string \<Rightarrow> string \<Rightarrow> anchor" where
  "plain_anchor href text =
     \<lparr> a_href = Some href, a_text = text, a_title = None, a_aria_label = None,
       a_aria_labelledby = None \<rparr>"

text \<open>Transports without state: every request is answered alike.\<close>

definition always_403 :: "unit transport" where
  "always_403 w rq =
     (Response \<lparr> resp_status = 403, resp_statusText = ''Forbidden'', resp_body = '''' \<rparr>, w)"

definition always_200 :: "unit transport" where
  "always_200 w rq =
     (Response \<lparr> resp_status = 200, resp_statusText = ''OK'', resp_body = ''<html></html>'' \<rparr>, w)"

definition reject_all :: "unit transport" where
  "reject_all w rq = (Rejected \<lparr> err_name = ''TypeError'', err_message = ''fetch failed'' \<rparr>, w)"

text \<open>
  A home page whose first link points back to the home page itself, followed by ten
  links to other pages of the site; and the same page without the first link.
\<close>

definition ten_links :: "anchor list" where
  "ten_links =
     [plain_anchor ''/p1'' ''One'', plain_anchor ''/p2'' ''Two'', plain_anchor ''/p3'' ''Three'',
      plain_anchor ''/p4'' ''Four'', plain_anchor ''/p5'' ''Five'', plain_anchor ''/p6'' ''Six'',
      plain_anchor ''/p7'' ''Seven'', plain_anchor ''/p8'' ''Eight'',
      plain_anchor ''/p9'' ''Nine'', plain_anchor ''/p10'' ''Ten'']"

definition page_home_first :: dom where
  "page_home_first = empty_page \<lparr> dom_a := plain_anchor ''/'' ''Home'' # ten_links \<rparr>"

definition page_ten_links :: dom where
  "page_ten_links = empty_page \<lparr> dom_a := ten_links \<rparr>"




definition x_com :: parsed_url where
  "x_com = \<lparr> u_href = ''https://x.com/'', u_protocol = ''https:'', u_host = ''x.com'',
              u_hostname = ''x.com'' \<rparr>"







text \<open>
  A page on \<open>https://x.com/\<close> with one anchor to a host whose name merely begins with
  \<open>x.com\<close>.
\<close>

definition page_lookalike :: dom where
  "page_lookalike =
     empty_page \<lparr> dom_a := [plain_anchor ''https://x.com.evil.org/page'' ''Offer''] \<rparr>"

section \<open>Properties of the form classifier and the per-form score\<close>

lemma inputTypes_mem:
  "i \<in> set inputs \<Longrightarrow> in_type i = Some t \<Longrightarrow> toLowerCase t = t \<Longrightarrow> t \<noteq> []
     \<Longrightarrow> t \<in> set (inputTypes inputs)"
  by (force simp: inputTypes_def or_str_def)

text \<open>
  C8.  A form with an input of type email and an input of type password, whose text
  (lower-cased) contains "login" or whose page URL (lower-cased) contains "login", is
  classified as a login form.  The login rule is the first of the chain, so whatever
  else the form text matches has no effect on the result.
\<close>

theorem classifyForm_login_first:
  assumes "\<exists>i \<in> set inputs. in_type i = Some ''email''"
    and "\<exists>i \<in> set inputs. in_type i = Some ''password''"
    and "str_includes (toLowerCase formHtml) ''login'' \<or> str_includes (toLowerCase pageUrl) ''login''"
  shows "classifyForm inputs formHtml pageUrl = ''Login Form''"
proof -
  have e: "''email'' \<in> set (inputTypes inputs)"
    using assms(1) by (auto intro!: inputTypes_mem simp: toLowerCase_def lower_char_def)
  have p: "''password'' \<in> set (inputTypes inputs)"
    using assms(2) by (auto intro!: inputTypes_mem simp: toLowerCase_def lower_char_def)
  show ?thesis
    unfolding classifyForm_def Let_def
    by (rule if_P) (use e p assms(3) in blast)
qed

theorem classifyForm_login_first_witness:
  "classifyForm
     [\<lparr> in_type = Some ''email'', in_name = ''user'', in_id = ''u'', in_label = Some ''Email'',
        in_required = True \<rparr>,
      \<lparr> in_type = Some ''password'', in_name = ''pw'', in_id = ''p'', in_label = Some ''Password'',
        in_required = True \<rparr>]
     ''Login to your account'' ''https://x.com/login'' = ''Login Form''"
  by (rule classifyForm_login_first)
     (simp_all add: toLowerCase_def lower_char_def startsWith_def)

text \<open>The five deductions of the per-form score, over arbitrary outcomes of the checks.\<close>

lemma deduction_chain_bounds:
  fixes a b c d e :: bool
  shows "30 \<le> (let score0 = (100::int);
          hasLabels = a;
          score1 = (if hasLabels then score0 else score0 - 20);
          hasRequiredIndicators = b;
          score2 = (if hasRequiredIndicators then score1 else score1 - 15);
          hasFieldsets = c;
          score3 = (if hasFieldsets then score2 else score2 - 10);
          hasAriaAttributes = d;
          score4 = (if hasAriaAttributes then score3 else score3 - 15);
          hasProperTypes = e;
          score5 = (if hasProperTypes then score4 else score4 - 10)
      in max 0 (min 100 score5))
   \<and> (let score0 = (100::int);
          hasLabels = a;
          score1 = (if hasLabels then score0 else score0 - 20);
          hasRequiredIndicators = b;
          score2 = (if hasRequiredIndicators then score1 else score1 - 15);
          hasFieldsets = c;
          score3 = (if hasFieldsets then score2 else score2 - 10);
          hasAriaAttributes = d;
          score4 = (if hasAriaAttributes then score3 else score3 - 15);
          hasProperTypes = e;
          score5 = (if hasProperTypes then score4 else score4 - 10)
      in max 0 (min 100 score5)) \<le> 100"
  by (cases a; cases b; cases c; cases d; cases e) (simp_all add: Let_def)

lemma calculateAccessibilityScore_form_bounds:
  "30 \<le> calculateAccessibilityScore_form inputs formHtml
   \<and> calculateAccessibilityScore_form inputs formHtml \<le> 100"
  unfolding calculateAccessibilityScore_form_def by (rule deduction_chain_bounds)

text \<open>The lower bound is reached: the bare form scores exactly 30.\<close>

lemma analyzeForms_bare_form:
  "analyzeForms [bare_form] ''https://x.com/'' =
     [\<lparr> page_url = ''https://x.com/'', form_index = 0, input_count = 2,
        input_types = [''input''], form_method = ''GET'', form_action = '''',
        form_classification = ''General Form'', has_labels = False, accessibility_score = 30,
        form_inputs = Some [read_input bare_input, read_input bare_input] \<rparr>]"
  by code_simp

text \<open>
  C10.  Every form that \<open>analyzeForms\<close> produces carries an accessibility score between
  30 and 100: the five deductions are 20, 15, 10, 15 and 10, at most 70 together.
\<close>

theorem analyzeForms_score_at_least_30:
  assumes "f \<in> set (analyzeForms forms pageUrl)"
  shows "30 \<le> accessibility_score f \<and> accessibility_score f \<le> 100"
proof -
  from assms obtain k fe where "f \<in> set (analyze_form pageUrl k fe)"
    by (auto simp: analyzeForms_def)
  then have "\<exists>inputs formHtml. accessibility_score f = calculateAccessibilityScore_form inputs formHtml"
    by (auto simp: analyze_form_def Let_def split: if_splits)
  then show ?thesis
    using calculateAccessibilityScore_form_bounds by metis
qed

theorem analyzeForms_score_at_least_30_witness:
  "hd (analyzeForms [bare_form] ''https://x.com/'') \<in> set (analyzeForms [bare_form] ''https://x.com/'')
   \<and> 30 \<le> accessibility_score (hd (analyzeForms [bare_form] ''https://x.com/''))
   \<and> accessibility_score (hd (analyzeForms [bare_form] ''https://x.com/'')) \<le> 100"
proof -
  have m: "hd (analyzeForms [bare_form] ''https://x.com/'')
             \<in> set (analyzeForms [bare_form] ''https://x.com/'')"
    by (simp add: analyzeForms_bare_form)
  show ?thesis
    using m analyzeForms_score_at_least_30 [OF m] by simp
qed

section \<open>Properties of the fetch strategy engine\<close>

lemma try_strategies_scan:
  "try_strategies tr url ss lastError n =
     run_until_ok tr (map (\<lambda>s. \<lparr> rq_url = url, rq_strategy = Some s \<rparr>) ss) lastError n"
proof (induction ss arbitrary: lastError n)
  case Nil
  show ?case by simp
next
  case (Cons s ss)
  obtain out n' where d: "do_fetch tr \<lparr> rq_url = url, rq_strategy = Some s \<rparr> n = (out, n')"
    by (cases "do_fetch tr \<lparr> rq_url = url, rq_strategy = Some s \<rparr> n")
  show ?case
    by (cases out) (simp_all add: d Cons.IH)
qed

lemma run_until_ok_append:
  "run_until_ok tr (xs @ ys) lastError n =
     (case run_until_ok tr xs lastError n of
        (Inr r, n') \<Rightarrow> (Inr r, n')
      | (Inl lastError', n') \<Rightarrow> run_until_ok tr ys lastError' n')"
proof (induction xs arbitrary: lastError n)
  case Nil
  show ?case by simp
next
  case (Cons rq xs)
  obtain out n' where d: "do_fetch tr rq n = (out, n')"
    by (cases "do_fetch tr rq n")
  show ?case
    by (cases out) (simp_all add: d Cons.IH)
qed

lemma request_plan_Suc:
  "request_plan url (Suc k) =
     map (\<lambda>s. \<lparr> rq_url = url, rq_strategy = Some s \<rparr>) strategies @ request_plan url k"
  by (simp add: request_plan_def)

text \<open>The two nested loops are one scan over the request matrix.\<close>

lemma fetch_attempts_scan:
  "fetch_attempts tr url k lastError n = run_until_ok tr (request_plan url k) lastError n"
proof (induction k arbitrary: lastError n)
  case 0
  show ?case by (simp add: request_plan_def)
next
  case (Suc k)
  show ?case
    by (simp add: request_plan_Suc run_until_ok_append try_strategies_scan [symmetric] Suc.IH
        split: prod.splits sum.splits)
qed

text \<open>
  The scan returns the first 2xx response and has then issued the requests up to this
  one and no other.
\<close>

lemma run_until_ok_first:
  assumes "k < length rqs"
    and "outcomes tr w rqs ! k = Response r"
    and "resp_ok r"
    and "list_all (\<lambda>out. \<not> is_ok out) (take k (outcomes tr w rqs))"
  shows "fst (run_until_ok tr rqs lastError (w, lg)) = Inr r
       \<and> snd (snd (run_until_ok tr rqs lastError (w, lg))) = lg @ take (Suc k) rqs"
  using assms
proof (induction rqs arbitrary: k w lg lastError)
  case Nil
  then show ?case by simp
next
  case (Cons rq rqs)
  obtain out w1 where t: "tr w rq = (out, w1)"
    by (cases "tr w rq")
  show ?case
  proof (cases k)
    case 0
    with Cons.prems t have "out = Response r" by simp
    with t Cons.prems(3) 0 show ?thesis by (simp add: do_fetch_def)
  next
    case (Suc k')
    have nok: "\<not> is_ok out"
      using Cons.prems(4) Suc t by simp
    have IH: "fst (run_until_ok tr rqs le (w1, lg @ [rq])) = Inr r
       \<and> snd (snd (run_until_ok tr rqs le (w1, lg @ [rq]))) = (lg @ [rq]) @ take (Suc k') rqs" for le
      using Cons.prems Suc t by (intro Cons.IH) simp_all
    show ?thesis
    proof (cases out)
      case (Response r')
      with nok have "\<not> resp_ok r'" by (simp add: is_ok_def)
      with t Response IH [of "Some (http_error r')"] Suc show ?thesis
        by (simp add: do_fetch_def)
    next
      case (Rejected e)
      with t IH [of "Some e"] Suc show ?thesis
        by (simp add: do_fetch_def)
    qed
  qed
qed

lemma fetchWithStrategies_scan:
  "fst (run_until_ok tr (request_plan url m) None n) = Inr r \<Longrightarrow>
     fetchWithStrategies tr url m n = (Inr r, snd (run_until_ok tr (request_plan url m) None n))"
  by (cases "run_until_ok tr (request_plan url m) None n")
     (simp add: fetchWithStrategies_def fetch_attempts_scan)

text \<open>
  C5.  \<open>fetchWithStrategies\<close> returns the first 2xx response at once: when the request at
  position \<open>k\<close> of the retry and strategy matrix is the first one answered with a 2xx
  response, this response is returned and exactly the \<open>k + 1\<close> requests up to it have
  been issued.  In particular, when the first request (standard strategy) does not
  yield a 2xx response and the second (mobile strategy) does, exactly these two
  requests are issued: the crawler strategy and the later attempts are never tried.
\<close>

theorem fetchWithStrategies_short_circuit:
  "(k < length (request_plan url maxRetries)
      \<and> outcomes tr w (request_plan url maxRetries) ! k = Response r
      \<and> resp_ok r
      \<and> list_all (\<lambda>out. \<not> is_ok out) (take k (outcomes tr w (request_plan url maxRetries)))
    \<longrightarrow> fst (fetchWithStrategies tr url maxRetries (w, lg)) = Inr r
        \<and> snd (snd (fetchWithStrategies tr url maxRetries (w, lg)))
            = lg @ take (Suc k) (request_plan url maxRetries))
   \<and> (tr w \<lparr> rq_url = url, rq_strategy = Some Standard \<rparr> = (out, w1)
      \<and> (\<forall>r. out = Response r \<longrightarrow> \<not> resp_ok r)
      \<and> tr w1 \<lparr> rq_url = url, rq_strategy = Some Mobile \<rparr> = (Response r2, w2)
      \<and> resp_ok r2
      \<and> 0 < maxRetries
    \<longrightarrow> fetchWithStrategies tr url maxRetries (w, lg) =
         (Inr r2, (w2, lg @ [\<lparr> rq_url = url, rq_strategy = Some Standard \<rparr>,
                              \<lparr> rq_url = url, rq_strategy = Some Mobile \<rparr>])))"
proof (intro conjI impI)
  assume a: "k < length (request_plan url maxRetries)
      \<and> outcomes tr w (request_plan url maxRetries) ! k = Response r
      \<and> resp_ok r
      \<and> list_all (\<lambda>out. \<not> is_ok out) (take k (outcomes tr w (request_plan url maxRetries)))"
  then have f: "fst (run_until_ok tr (request_plan url maxRetries) None (w, lg)) = Inr r
       \<and> snd (snd (run_until_ok tr (request_plan url maxRetries) None (w, lg)))
           = lg @ take (Suc k) (request_plan url maxRetries)"
    by (intro run_until_ok_first) simp_all
  then have e: "fetchWithStrategies tr url maxRetries (w, lg)
      = (Inr r, snd (run_until_ok tr (request_plan url maxRetries) None (w, lg)))"
    by (intro fetchWithStrategies_scan) simp
  show "fst (fetchWithStrategies tr url maxRetries (w, lg)) = Inr r"
    by (simp add: e)
  show "snd (snd (fetchWithStrategies tr url maxRetries (w, lg)))
            = lg @ take (Suc k) (request_plan url maxRetries)"
    using f by (simp add: e)
next
  assume a: "tr w \<lparr> rq_url = url, rq_strategy = Some Standard \<rparr> = (out, w1)
      \<and> (\<forall>r. out = Response r \<longrightarrow> \<not> resp_ok r)
      \<and> tr w1 \<lparr> rq_url = url, rq_strategy = Some Mobile \<rparr> = (Response r2, w2)
      \<and> resp_ok r2
      \<and> 0 < maxRetries"
  then obtain k where k: "maxRetries = Suc k"
    by (cases maxRetries) auto
  have "try_strategies tr url strategies None (w, lg) =
        (Inr r2, (w2, lg @ [\<lparr> rq_url = url, rq_strategy = Some Standard \<rparr>,
                             \<lparr> rq_url = url, rq_strategy = Some Mobile \<rparr>]))"
    using a by (cases out) (simp_all add: strategies_def do_fetch_def)
  then show "fetchWithStrategies tr url maxRetries (w, lg) =
         (Inr r2, (w2, lg @ [\<lparr> rq_url = url, rq_strategy = Some Standard \<rparr>,
                              \<lparr> rq_url = url, rq_strategy = Some Mobile \<rparr>]))"
    by (simp add: fetchWithStrategies_def k)
qed

theorem fetchWithStrategies_short_circuit_witness:
  "fetchWithStrategies second_call_ok ''https://x.com/'' 3 (0, []) =
     (Inr \<lparr> resp_status = 200, resp_statusText = ''OK'', resp_body = ''<html></html>'' \<rparr>,
      (2, [\<lparr> rq_url = ''https://x.com/'', rq_strategy = Some Standard \<rparr>,
           \<lparr> rq_url = ''https://x.com/'', rq_strategy = Some Mobile \<rparr>]))
   \<and> fst (fetchWithStrategies fifth_call_ok ''https://x.com/'' 3 (0, []))
       = Inr \<lparr> resp_status = 200, resp_statusText = ''OK'', resp_body = ''<html></html>'' \<rparr>
   \<and> snd (snd (fetchWithStrategies fifth_call_ok ''https://x.com/'' 3 (0, [])))
       = [] @ take (Suc 4) (request_plan ''https://x.com/'' 3)
   \<and> fst (fetchWithStrategies always_200 ''https://x.com/'' 3 ((), []))
       = Inr \<lparr> resp_status = 200, resp_statusText = ''OK'', resp_body = ''<html></html>'' \<rparr>
   \<and> snd (snd (fetchWithStrategies always_200 ''https://x.com/'' 3 ((), [])))
       = [] @ take (Suc 0) (request_plan ''https://x.com/'' 3)"
proof -
  have a: "second_call_ok 0 \<lparr> rq_url = ''https://x.com/'', rq_strategy = Some Standard \<rparr> =
      (Response \<lparr> resp_status = 403, resp_statusText = ''Forbidden'', resp_body = '''' \<rparr>, Suc 0)"
    by (simp add: second_call_ok_def)
  have b: "\<forall>r. Response \<lparr> resp_status = 403, resp_statusText = ''Forbidden'', resp_body = '''' \<rparr>
                = Response r \<longrightarrow> \<not> resp_ok r"
    by (simp add: resp_ok_def)
  have c: "second_call_ok (Suc 0) \<lparr> rq_url = ''https://x.com/'', rq_strategy = Some Mobile \<rparr> =
      (Response \<lparr> resp_status = 200, resp_statusText = ''OK'', resp_body = ''<html></html>'' \<rparr>, 2)"
    by (simp add: second_call_ok_def)
  have d: "resp_ok \<lparr> resp_status = 200, resp_statusText = ''OK'', resp_body = ''<html></html>'' \<rparr>"
    by (simp add: resp_ok_def)
  have e: "0 < (3::nat)" by simp
  have p: "4 < length (request_plan ''https://x.com/'' 3)"
    by code_simp
  have q: "outcomes fifth_call_ok 0 (request_plan ''https://x.com/'' 3) ! 4
             = Response \<lparr> resp_status = 200, resp_statusText = ''OK'', resp_body = ''<html></html>'' \<rparr>"
    by code_simp
  have s: "list_all (\<lambda>out. \<not> is_ok out)
             (take 4 (outcomes fifth_call_ok 0 (request_plan ''https://x.com/'' 3)))"
    by code_simp
  have p0: "0 < length (request_plan ''https://x.com/'' 3)"
    by code_simp
  have q0: "outcomes always_200 () (request_plan ''https://x.com/'' 3) ! 0
             = Response \<lparr> resp_status = 200, resp_statusText = ''OK'', resp_body = ''<html></html>'' \<rparr>"
    by code_simp
  have s0: "list_all (\<lambda>out. \<not> is_ok out)
             (take 0 (outcomes always_200 () (request_plan ''https://x.com/'' 3)))"
    by simp
  show ?thesis
    using fetchWithStrategies_short_circuit
      [where tr = always_200 and w = "()" and url = "''https://x.com/''" and k = 0
        and maxRetries = 3 and lg = "[]"
        and r = "\<lparr> resp_status = 200, resp_statusText = ''OK'', resp_body = ''<html></html>'' \<rparr>"]
      p0 q0 s0
      fetchWithStrategies_short_circuit
      [where tr = second_call_ok and w = 0 and url = "''https://x.com/''" and out = "Response
          \<lparr> resp_status = 403, resp_statusText = ''Forbidden'', resp_body = '''' \<rparr>"
        and ?w1.0 = "Suc 0" and ?w2.0 = 2 and maxRetries = 3 and lg = "[]"
        and ?r2.0 = "\<lparr> resp_status = 200, resp_statusText = ''OK'', resp_body = ''<html></html>'' \<rparr>"]
      fetchWithStrategies_short_circuit
      [where tr = fifth_call_ok and w = 0 and url = "''https://x.com/''" and k = 4
        and maxRetries = 3 and lg = "[]"
        and r = "\<lparr> resp_status = 200, resp_statusText = ''OK'', resp_body = ''<html></html>'' \<rparr>"]
      a b c d e p q s
    by simp
qed

section \<open>Properties of the scores\<close>

lemma alt_deduction_0: "\<forall>a \<in> set images. truthy a \<Longrightarrow> alt_deduction w images = 0"
proof -
  assume "\<forall>a \<in> set images. truthy a"
  then have "filter (\<lambda>alt. \<not> truthy alt) images = []"
    by (simp add: filter_empty_conv)
  then show ?thesis
    by (simp add: alt_deduction_def Let_def)
qed

text \<open>
  C7.  A page with no \<open>h1\<close>, no meta description and no viewport tag, and every other SEO
  check passing, scores 100 - 15 - 15 - 8 = 62.
\<close>

theorem calculateSEOScore_62:
  assumes "dom_h1_text d = []"
    and "\<not> truthy (dom_meta_description d)"
    and "dom_viewport_count d = 0"
    and "30 \<le> length (trim (dom_title_text d))" and "length (trim (dom_title_text d)) \<le> 60"
    and "\<not> (dom_h2_count d = 0 \<and> (dom_h3_count d > 0 \<or> dom_h4_count d > 0))"
    and "\<forall>alt \<in> set (dom_img_alt d). truthy alt"
    and "\<exists>a \<in> set (a_with_href d). seo_internal_href a"
    and "dom_canonical_count d > 0" and "dom_og_count d > 0" and "dom_jsonld_count d > 0"
  shows "calculateSEOScore d = 62"
proof -
  have t: "seo_title_deduction d = 0"
    using assms(4,5) by (auto simp: seo_title_deduction_def Let_def)
  have m: "seo_description_deduction d = 15"
    using assms(2) by (simp add: seo_description_deduction_def Let_def)
  have h: "seo_h1_deduction d = 15"
    using assms(1) by (simp add: seo_h1_deduction_def Let_def)
  have y: "seo_hierarchy_deduction d = 0"
    using assms(6) by (simp add: seo_hierarchy_deduction_def)
  have i: "\<And>w. alt_deduction w (dom_img_alt d) = 0"
    using assms(7) by (rule alt_deduction_0)
  have "filter seo_internal_href (a_with_href d) \<noteq> []"
    using assms(8) by (simp add: filter_empty_conv)
  then have l: "seo_internal_links_deduction d = 0"
    by (simp add: seo_internal_links_deduction_def Let_def)
  have v: "seo_viewport_deduction d = 8"
    using assms(3) by (simp add: seo_viewport_deduction_def)
  have c: "seo_canonical_deduction d = 0" "seo_og_deduction d = 0"
    "seo_structured_data_deduction d = 0"
    using assms(9,10,11)
    by (simp_all add: seo_canonical_deduction_def seo_og_deduction_def
        seo_structured_data_deduction_def)
  show ?thesis
    by (simp add: calculateSEOScore_def t m h y i l v c math_round_def)
qed

theorem calculateSEOScore_62_witness:
  "calculateSEOScore page_no_h1_desc_viewport = 62"
  by (rule calculateSEOScore_62)
     (simp_all add: page_no_h1_desc_viewport_def truthy_def trim_def is_space_def
        a_with_href_def seo_internal_href_def startsWith_def)

lemma alt_deduction_nonneg: "0 \<le> w \<Longrightarrow> 0 \<le> alt_deduction w images"
  by (simp add: alt_deduction_def Let_def)

lemma a11y_deductions_nonneg:
  "0 \<le> a11y_h1_deduction d" "0 \<le> a11y_link_deduction d" "0 \<le> a11y_input_deduction d"
  "0 \<le> a11y_lang_deduction d" "0 \<le> a11y_skip_deduction d"
  by (simp_all add: a11y_h1_deduction_def a11y_link_deduction_def a11y_input_deduction_def
      a11y_lang_deduction_def a11y_skip_deduction_def Let_def)

lemma seo_deductions_nonneg:
  "0 \<le> seo_title_deduction d" "0 \<le> seo_description_deduction d" "0 \<le> seo_h1_deduction d"
  "0 \<le> seo_hierarchy_deduction d" "0 \<le> seo_internal_links_deduction d"
  "0 \<le> seo_viewport_deduction d" "0 \<le> seo_canonical_deduction d" "0 \<le> seo_og_deduction d"
  "0 \<le> seo_structured_data_deduction d"
  by (simp_all add: seo_title_deduction_def seo_description_deduction_def seo_h1_deduction_def
      seo_hierarchy_deduction_def seo_internal_links_deduction_def seo_viewport_deduction_def
      seo_canonical_deduction_def seo_og_deduction_def seo_structured_data_deduction_def Let_def)

lemma clamped_round_bounds:
  assumes "0 \<le> x"
  shows "0 \<le> max 0 (math_round (100 - x)) \<and> max 0 (math_round (100 - x)) \<le> 100"
proof -
  have "100 - x + 1 / 2 < 101" using assms by simp
  then have "\<lfloor>100 - x + 1 / 2\<rfloor> < 101" by (simp add: floor_less_iff)
  then show ?thesis by (simp add: math_round_def)
qed

text \<open>
  C9.  The accessibility score and the SEO score of a page in the deep-analysis route,
  the accessibility score of a form, and the accessibility score of the full-analysis
  route are integers between 0 and 100.
\<close>

theorem scores_within_0_100:
  "0 \<le> calculateAccessibilityScore_page d \<and> calculateAccessibilityScore_page d \<le> 100
   \<and> 0 \<le> calculateSEOScore d \<and> calculateSEOScore d \<le> 100
   \<and> 0 \<le> calculateAccessibilityScore_form inputs formHtml
   \<and> calculateAccessibilityScore_form inputs formHtml \<le> 100
   \<and> 0 \<le> full_accessibility_score d \<and> full_accessibility_score d \<le> 100"
proof -
  have g: "0 \<le> full_accessibility_score d" "full_accessibility_score d \<le> 100"
    by (simp_all add: full_accessibility_score_def)
  have w1: "0 \<le> alt_deduction 0.3 (dom_img_alt d)"
    by (rule alt_deduction_nonneg) simp
  have w2: "0 \<le> alt_deduction 0.15 (dom_img_alt d)"
    by (rule alt_deduction_nonneg) simp
  have a: "0 \<le> 0 + alt_deduction 0.3 (dom_img_alt d) + a11y_h1_deduction d
                + a11y_link_deduction d + a11y_input_deduction d
                + a11y_lang_deduction d + a11y_skip_deduction d"
    using w1 a11y_deductions_nonneg [of d]
    by linarith
  have s: "0 \<le> 0 + seo_title_deduction d + seo_description_deduction d
                + seo_h1_deduction d + seo_hierarchy_deduction d
                + alt_deduction 0.15 (dom_img_alt d) + seo_internal_links_deduction d
                + seo_viewport_deduction d + seo_canonical_deduction d
                + seo_og_deduction d + seo_structured_data_deduction d"
    using w2 seo_deductions_nonneg [of d]
    by linarith
  have f: "30 \<le> calculateAccessibilityScore_form inputs formHtml"
    "calculateAccessibilityScore_form inputs formHtml \<le> 100"
    using calculateAccessibilityScore_form_bounds by blast+
  show ?thesis
    unfolding calculateAccessibilityScore_page_def calculateSEOScore_def Let_def
    using clamped_round_bounds [OF a] clamped_round_bounds [OF s] f g by linarith
qed

section \<open>Total fetch failure and malformed input\<close>

lemma try_strategies_never_ok:
  assumes "never_ok tr"
  shows "\<exists>le n'. try_strategies tr url ss lastError n = (Inl le, n')"
proof (induction ss arbitrary: lastError n)
  case Nil
  show ?case by simp
next
  case (Cons s ss)
  obtain out w' where t: "tr (fst n) \<lparr> rq_url = url, rq_strategy = Some s \<rparr> = (out, w')"
    by (cases "tr (fst n) \<lparr> rq_url = url, rq_strategy = Some s \<rparr>")
  show ?case
  proof (cases out)
    case (Response r)
    with t assms have "\<not> resp_ok r" by (auto simp: never_ok_def)
    with t Response Cons.IH show ?thesis by (simp add: do_fetch_def)
  next
    case (Rejected e)
    with t Cons.IH show ?thesis by (simp add: do_fetch_def)
  qed
qed

lemma fetch_attempts_never_ok:
  assumes "never_ok tr"
  shows "\<exists>le n'. fetch_attempts tr url k lastError n = (Inl le, n')"
proof (induction k arbitrary: lastError n)
  case 0
  show ?case by simp
next
  case (Suc k)
  obtain le n1 where "try_strategies tr url strategies lastError n = (Inl le, n1)"
    using try_strategies_never_ok [OF assms] by blast
  with Suc.IH show ?case by simp
qed

lemma fetchWithStrategies_never_ok:
  assumes "never_ok tr"
  shows "\<exists>e n'. fetchWithStrategies tr url k n = (Inl e, n')"
proof -
  obtain le n1 where "fetch_attempts tr url k None n = (Inl le, n1)"
    using fetch_attempts_never_ok [OF assms] by blast
  then show ?thesis by (simp add: fetchWithStrategies_def)
qed


lemma quick_links_never_ok:
  assumes "never_ok tr" and "truthy url"
  shows "fst (quick_links_POST P tr requestUrl url n)
           = quick_fallback P requestUrl (normalize_target (the url))"
proof -
  obtain e n1 where "fetchWithStrategies tr (normalize_target (the url)) 3 n = (Inl e, n1)"
    using fetchWithStrategies_never_ok [OF assms(1)] by blast
  with assms(2) show ?thesis by (simp add: quick_links_POST_def Let_def)
qed

lemma form_validation_never_ok:
  assumes "never_ok tr" and "truthy url"
  shows "fst (form_validation_POST P tr requestUrl url n)
           = form_fallback P requestUrl (normalize_target (the url))"
proof -
  obtain e n1 where "fetchWithStrategies tr (normalize_target (the url)) 3 n = (Inl e, n1)"
    using fetchWithStrategies_never_ok [OF assms(1)] by blast
  with assms(2) show ?thesis by (simp add: form_validation_POST_def Let_def)
qed


lemma quick_fallback_parsed:
  assumes "new_URL P t \<noteq> None"
  shows "http_status (quick_fallback P ru t) = 200
       \<and> rs_method (quick_fallback P ru t) = Some ''intelligent_estimation''
       \<and> rs_status (quick_fallback P ru t) = Some ''success''
       \<and> rs_error (quick_fallback P ru t) = None
       \<and> rs_payload (quick_fallback P ru t) \<noteq> None"
proof -
  from assms obtain u where u: "new_URL P t = Some u" by auto
  have "\<exists>d. generateFallbackData P t = Inr d"
    unfolding generateFallbackData_def Let_def u option.case by (rule exI) (rule refl)
  then obtain d where "generateFallbackData P t = Inr d" ..
  then show ?thesis by (simp add: quick_fallback_def)
qed

lemma form_fallback_parsed:
  assumes "new_URL P t \<noteq> None"
  shows "http_status (form_fallback P ru t) = 200
       \<and> rs_method (form_fallback P ru t) = Some ''intelligent_estimation''
       \<and> rs_status (form_fallback P ru t) = Some ''success''
       \<and> rs_error (form_fallback P ru t) = None
       \<and> rs_payload (form_fallback P ru t) \<noteq> None"
proof -
  from assms obtain u where u: "new_URL P t = Some u" by auto
  have "\<exists>d. generateFormEstimates P t = Inr d"
    unfolding generateFormEstimates_def Let_def u option.case by (rule exI) (rule refl)
  then obtain d where "generateFormEstimates P t = Inr d" ..
  then show ?thesis by (simp add: form_fallback_def)
qed



lemma full_analysis_never_ok:
  assumes "never_ok tr" and "truthy url"
  shows "\<exists>e. fst (full_analysis_POST P tr url n) = full_catch e"
proof -
  let ?rq = "\<lparr> rq_url = normalize_target (the url), rq_strategy = None \<rparr>"
  obtain out w' where t: "tr (fst n) ?rq = (out, w')"
    by (cases "tr (fst n) ?rq")
  show ?thesis
  proof (cases out)
    case (Response r)
    with t assms(1) have nok: "\<not> resp_ok r" by (auto simp: never_ok_def)
    have "fst (full_analysis_POST P tr url n) = full_catch (http_error r)"
      using t Response assms(2) nok by (simp add: full_analysis_POST_def Let_def do_fetch_def)
    then show ?thesis ..
  next
    case (Rejected e)
    have "fst (full_analysis_POST P tr url n) = full_catch e"
      using t Rejected assms(2) by (simp add: full_analysis_POST_def Let_def do_fetch_def)
    then show ?thesis ..
  qed
qed

text \<open>
  The main page of the deep-analysis route: a response that is not 2xx is answered with
  status 400, a rejected \<open>fetch\<close> reaches the route's \<open>catch\<close> and is answered with 500.
\<close>

lemma deep_analysis_main_not_ok:
  assumes "truthy url" and "new_URL P (the url) = Some t"
    and "tr (fst n) \<lparr> rq_url = u_href t, rq_strategy = None \<rparr> = (Response r, w')"
    and "\<not> resp_ok r"
  shows "fst (deep_analysis_POST P tr url n) =
          error_response 400 (''Failed to fetch main page: '' @ show_nat (resp_status r)
                       @ '' '' @ resp_statusText r)"
  using assms by (simp add: deep_analysis_POST_def do_fetch_def)

lemma deep_analysis_main_rejected:
  assumes "truthy url" and "new_URL P (the url) = Some t"
    and "tr (fst n) \<lparr> rq_url = u_href t, rq_strategy = None \<rparr> = (Rejected e, w')"
  shows "fst (deep_analysis_POST P tr url n)
           = error_response 500 (''Analysis failed: '' @ err_message e)"
  using assms by (simp add: deep_analysis_POST_def do_fetch_def deep_catch_def)

lemma is_error_only_error_response: "is_error_only c (error_response c m)"
  by (simp add: is_error_only_def error_response_def)



text \<open>
  C1, as amended.  When no request is ever answered with a 2xx response: the quick-links
  and the form-validation routes answer with the estimator's result (status 200, method
  "intelligent_estimation") provided the target URL parses; the full-analysis route
  answers with status 500 and an error field only; the deep-analysis route answers with
  an error field only, with status 400 when its request for the main page is answered
  with a response (which is then not 2xx) and with status 500 when this request is
  rejected.
\<close>

theorem total_fetch_failure_responses:
  assumes "never_ok tr" and "truthy url"
  shows "(new_URL P (normalize_target (the url)) \<noteq> None \<longrightarrow>
            is_estimate (fst (quick_links_POST P tr requestUrl url n))
            \<and> is_estimate (fst (form_validation_POST P tr requestUrl url n)))
       \<and> is_error_only 500 (fst (full_analysis_POST P tr url n))
       \<and> (\<forall>t. new_URL P (the url) = Some t \<longrightarrow>
            (\<forall>r w'. tr (fst n) \<lparr> rq_url = u_href t, rq_strategy = None \<rparr> = (Response r, w') \<longrightarrow>
               is_error_only 400 (fst (deep_analysis_POST P tr url n))
               \<and> fst (deep_analysis_POST P tr url n)
                   = error_response 400 (''Failed to fetch main page: ''
                       @ show_nat (resp_status r) @ '' '' @ resp_statusText r))
            \<and> (\<forall>e w'. tr (fst n) \<lparr> rq_url = u_href t, rq_strategy = None \<rparr> = (Rejected e, w') \<longrightarrow>
               is_error_only 500 (fst (deep_analysis_POST P tr url n))
               \<and> fst (deep_analysis_POST P tr url n)
                   = error_response 500 (''Analysis failed: '' @ err_message e)))"
proof -
  have q: "new_URL P (normalize_target (the url)) \<noteq> None \<Longrightarrow>
           is_estimate (fst (quick_links_POST P tr requestUrl url n))"
    using quick_fallback_parsed [of P "normalize_target (the url)" requestUrl]
    by (simp add: quick_links_never_ok [OF assms] is_estimate_def)
  have f: "new_URL P (normalize_target (the url)) \<noteq> None \<Longrightarrow>
           is_estimate (fst (form_validation_POST P tr requestUrl url n))"
    using form_fallback_parsed [of P "normalize_target (the url)" requestUrl]
    by (simp add: form_validation_never_ok [OF assms] is_estimate_def)
  obtain e where "fst (full_analysis_POST P tr url n) = full_catch e"
    using full_analysis_never_ok [OF assms] by blast
  then have a: "is_error_only 500 (fst (full_analysis_POST P tr url n))"
    by (simp add: full_catch_def error_response_def is_error_only_def)
  have d4: "is_error_only 400 (fst (deep_analysis_POST P tr url n))
            \<and> fst (deep_analysis_POST P tr url n)
                = error_response 400 (''Failed to fetch main page: ''
                    @ show_nat (resp_status r) @ '' '' @ resp_statusText r)"
    if "new_URL P (the url) = Some t"
      and "tr (fst n) \<lparr> rq_url = u_href t, rq_strategy = None \<rparr> = (Response r, w')"
    for t r w'
  proof -
    have "\<not> resp_ok r" using that(2) assms(1) by (auto simp: never_ok_def)
    then have "fst (deep_analysis_POST P tr url n)
                = error_response 400 (''Failed to fetch main page: ''
                    @ show_nat (resp_status r) @ '' '' @ resp_statusText r)"
      using assms(2) that by (intro deep_analysis_main_not_ok)
    then show ?thesis
      using is_error_only_error_response by metis
  qed
  have d5: "is_error_only 500 (fst (deep_analysis_POST P tr url n))
            \<and> fst (deep_analysis_POST P tr url n)
                = error_response 500 (''Analysis failed: '' @ err_message e)"
    if "new_URL P (the url) = Some t"
      and "tr (fst n) \<lparr> rq_url = u_href t, rq_strategy = None \<rparr> = (Rejected e, w')"
    for t e w'
  proof -
    have "fst (deep_analysis_POST P tr url n)
            = error_response 500 (''Analysis failed: '' @ err_message e)"
      using assms(2) that by (intro deep_analysis_main_rejected)
    then show ?thesis
      using is_error_only_error_response by metis
  qed
  show ?thesis using q f a d4 d5 by blast
qed

lemma never_ok_always_403: "never_ok always_403"
  by (simp add: never_ok_def always_403_def resp_ok_def)

lemma never_ok_reject_all: "never_ok reject_all"
  by (simp add: never_ok_def reject_all_def)

theorem total_fetch_failure_responses_witness:
  "is_estimate (fst (quick_links_POST (demo_platform empty_page) always_403 None
       (Some ''https://x.com/'') ((), [])))
   \<and> is_estimate (fst (form_validation_POST (demo_platform empty_page) always_403 None
       (Some ''https://x.com/'') ((), [])))
   \<and> is_error_only 500 (fst (full_analysis_POST (demo_platform empty_page) always_403
       (Some ''https://x.com/'') ((), [])))
   \<and> is_error_only 400 (fst (deep_analysis_POST (demo_platform empty_page) always_403
       (Some ''https://x.com/'') ((), [])))
   \<and> is_error_only 500 (fst (deep_analysis_POST (demo_platform empty_page) reject_all
       (Some ''https://x.com/'') ((), [])))
   \<and> fst (deep_analysis_POST (demo_platform empty_page) reject_all
       (Some ''https://x.com/'') ((), [])) = error_response 500 (''Analysis failed: '' @ ''fetch failed'')"
proof -
  have t: "truthy (Some ''https://x.com/'')"
    by (simp add: truthy_def)
  have p: "new_URL (demo_platform empty_page) (normalize_target (the (Some ''https://x.com/'')))
             \<noteq> None"
    by code_simp
  have p': "new_URL (demo_platform empty_page) (the (Some ''https://x.com/'')) = Some x_com"
    by code_simp
  have r4: "always_403 (fst ((), []::fetch_request list))
              \<lparr> rq_url = u_href x_com, rq_strategy = None \<rparr>
            = (Response \<lparr> resp_status = 403, resp_statusText = ''Forbidden'', resp_body = '''' \<rparr>, ())"
    by (simp add: always_403_def)
  have r5: "reject_all (fst ((), []::fetch_request list))
              \<lparr> rq_url = u_href x_com, rq_strategy = None \<rparr>
            = (Rejected \<lparr> err_name = ''TypeError'', err_message = ''fetch failed'' \<rparr>, ())"
    by (simp add: reject_all_def)
  have m: "err_message \<lparr> err_name = ''TypeError'', err_message = ''fetch failed'' \<rparr> = ''fetch failed''"
    by simp
  show ?thesis
    using total_fetch_failure_responses [OF never_ok_always_403 t,
        of "demo_platform empty_page" None "((), [])"]
      total_fetch_failure_responses [OF never_ok_reject_all t,
        of "demo_platform empty_page" None "((), [])"]
      p p' r4 r5 m
    by metis
qed

text \<open>
  Where C1 fails as stated: with every request answered 403, the full-analysis route
  answers with status 500 and the deep-analysis route with status 400, neither with an
  estimate.
\<close>

theorem full_and_deep_no_estimate_counterexample:
  "fst (full_analysis_POST (demo_platform empty_page) always_403 (Some ''https://x.com/'') ((), []))
     = error_response 500 ''Analysis failed: HTTP 403: Forbidden''
   \<and> \<not> is_estimate (fst (full_analysis_POST (demo_platform empty_page) always_403
                          (Some ''https://x.com/'') ((), [])))
   \<and> fst (deep_analysis_POST (demo_platform empty_page) always_403 (Some ''https://x.com/'') ((), []))
     = error_response 400 ''Failed to fetch main page: 403 Forbidden''
   \<and> \<not> is_estimate (fst (deep_analysis_POST (demo_platform empty_page) always_403
                          (Some ''https://x.com/'') ((), [])))"
  by code_simp




section \<open>Properties of the crawl\<close>

lemma run_until_ok_log:
  "\<exists>j. snd (snd (run_until_ok tr rqs lastError n)) = snd n @ take j rqs \<and> (rqs \<noteq> [] \<longrightarrow> 0 < j)"
proof (induction rqs arbitrary: lastError n)
  case Nil
  show ?case by simp
next
  case (Cons rq rqs)
  obtain out w' where t: "tr (fst n) rq = (out, w')"
    by (cases "tr (fst n) rq")
  have d: "do_fetch tr rq n = (out, (w', snd n @ [rq]))"
    by (simp add: do_fetch_def t)
  have one: "snd n @ [rq] = snd n @ take (Suc 0) (rq # rqs)" by simp
  have more: "\<exists>j. snd (snd (run_until_ok tr rqs le (w', snd n @ [rq]))) = snd n @ take j (rq # rqs)
                \<and> 0 < j" for le
  proof -
    obtain j where "snd (snd (run_until_ok tr rqs le (w', snd n @ [rq])))
                      = snd (w', snd n @ [rq]) @ take j rqs"
      using Cons.IH [of le "(w', snd n @ [rq])"] by blast
    then have "snd (snd (run_until_ok tr rqs le (w', snd n @ [rq])))
                 = snd n @ take (Suc j) (rq # rqs)" by simp
    then show ?thesis by blast
  qed
  show ?case
  proof (cases out)
    case (Response r)
    show ?thesis
    proof (cases "resp_ok r")
      case True
      have "run_until_ok tr (rq # rqs) lastError n = (Inr r, (w', snd n @ [rq]))"
        using d Response True by simp
      then have "snd (snd (run_until_ok tr (rq # rqs) lastError n)) = snd n @ take (Suc 0) (rq # rqs)"
        by simp
      then show ?thesis by blast
    next
      case False
      have "run_until_ok tr (rq # rqs) lastError n
              = run_until_ok tr rqs (Some (http_error r)) (w', snd n @ [rq])"
        using d Response False by simp
      then show ?thesis using more [of "Some (http_error r)"] by metis
    qed
  next
    case (Rejected e)
    have "run_until_ok tr (rq # rqs) lastError n = run_until_ok tr rqs (Some e) (w', snd n @ [rq])"
      using d Rejected by simp
    then show ?thesis using more [of "Some e"] by metis
  qed
qed

lemma request_plan_url: "rq \<in> set (request_plan url m) \<Longrightarrow> rq_url rq = url"
  by (auto simp: request_plan_def split: if_splits)

lemma map_const_replicate: "\<forall>x \<in> set xs. f x = c \<Longrightarrow> map f xs = replicate (length xs) c"
  by (induction xs) auto

text \<open>
  A call of \<open>fetchWithStrategies\<close> with at least one attempt issues at least one request,
  and all its requests go to the given URL.
\<close>

lemma fetchWithStrategies_requests:
  "\<exists>reqs. snd (snd (fetchWithStrategies tr url m n)) = snd n @ reqs
     \<and> map rq_url reqs = replicate (length reqs) url \<and> (0 < m \<longrightarrow> reqs \<noteq> [])"
proof -
  obtain j where j: "snd (snd (run_until_ok tr (request_plan url m) None n))
                       = snd n @ take j (request_plan url m)"
    and p: "request_plan url m \<noteq> [] \<longrightarrow> 0 < j"
    using run_until_ok_log [of tr "request_plan url m" None n] by blast
  have s: "snd (fetchWithStrategies tr url m n) = snd (run_until_ok tr (request_plan url m) None n)"
    by (simp add: fetchWithStrategies_def fetch_attempts_scan split: prod.splits sum.splits)
  have u: "map rq_url (take j (request_plan url m))
             = replicate (length (take j (request_plan url m))) url"
    by (rule map_const_replicate) (auto dest: in_set_takeD request_plan_url)
  have ne: "0 < m \<longrightarrow> take j (request_plan url m) \<noteq> []"
  proof
    assume "0 < m"
    then obtain k where "m = Suc k" by (cases m) auto
    then have "request_plan url m \<noteq> []"
      by (simp add: request_plan_Suc strategies_def)
    with p show "take j (request_plan url m) \<noteq> []" by auto
  qed
  show ?thesis
    using j u ne unfolding s by blast
qed

lemma remdups_adj_block:
  "0 < k \<Longrightarrow> ys = [] \<or> hd ys \<noteq> u \<Longrightarrow> remdups_adj (replicate k u @ ys) = u # remdups_adj ys"
proof (induction k)
  case 0
  then show ?case by simp
next
  case (Suc k)
  show ?case
  proof (cases k)
    case 0
    with Suc.prems show ?thesis by (cases ys) auto
  next
    case (Suc k')
    with Suc.IH Suc.prems show ?thesis by simp
  qed
qed

lemma distinct_unique_in_order: "distinct (unique_in_order xs)"
  by (simp add: unique_in_order_def)

lemma distinct_extractLinksFromHtml: "distinct (extractLinksFromHtml P html baseUrl)"
  by (simp add: extractLinksFromHtml_def distinct_unique_in_order distinct_take)

text \<open>One pass of the loop body, when the guard lets the candidate through.\<close>

lemma crawl_loop_step:
  assumes "link \<notin> set (processedUrls cs)" and "crawledPages cs < maxPages"
  shows "\<exists>cs'. crawl_loop P tr maxPages (link # links) cs n
                 = crawl_loop P tr maxPages links cs' (snd (fetchWithStrategies tr link 2 n))
              \<and> crawledPages cs' = crawledPages cs + 1
              \<and> processedUrls cs' = processedUrls cs @ [link]"
proof -
  obtain res n' where f: "fetchWithStrategies tr link 2 n = (res, n')"
    by (cases "fetchWithStrategies tr link 2 n")
  show ?thesis
  proof (cases res)
    case (Inl e)
    let ?cs = "cs \<lparr> crawledPages := crawledPages cs + 1,
                    processedUrls := processedUrls cs @ [link] \<rparr>"
    have "crawl_loop P tr maxPages (link # links) cs n = crawl_loop P tr maxPages links ?cs n'"
      using assms f Inl by simp
    then show ?thesis
      by (intro exI [of _ ?cs]) (simp add: f)
  next
    case (Inr response)
    let ?cs = "cs \<lparr> allForms := allForms cs
                      @ analyzeForms (dom_forms (cheerio_load P (resp_body response))) link,
                    successfulPages := successfulPages cs + 1,
                    crawledPages := crawledPages cs + 1,
                    processedUrls := processedUrls cs @ [link] \<rparr>"
    have "crawl_loop P tr maxPages (link # links) cs n = crawl_loop P tr maxPages links ?cs n'"
      using assms f Inr by (simp add: Let_def)
    then show ?thesis
      by (intro exI [of _ ?cs]) (simp add: f)
  qed
qed

text \<open>
  As long as no candidate has been processed before and the budget is not exhausted,
  every candidate is visited: it is fetched, counted and appended to the processed
  URLs, whether its fetch succeeds or not.  The requests issued are, candidate after
  candidate, one or more requests to this candidate.
\<close>

lemma crawl_loop_visits_all:
  assumes "distinct links"
    and "set links \<inter> set (processedUrls cs) = {}"
    and "crawledPages cs + length links \<le> maxPages"
  shows "crawledPages (fst (crawl_loop P tr maxPages links cs n)) = crawledPages cs + length links
       \<and> processedUrls (fst (crawl_loop P tr maxPages links cs n)) = processedUrls cs @ links
       \<and> (\<exists>reqs. snd (snd (crawl_loop P tr maxPages links cs n)) = snd n @ reqs
                  \<and> remdups_adj (map rq_url reqs) = links)"
  using assms
proof (induction links arbitrary: cs n)
  case Nil
  show ?case by simp
next
  case (Cons link links)
  have go: "link \<notin> set (processedUrls cs)" "crawledPages cs < maxPages"
    using Cons.prems by auto
  obtain cs' where step: "crawl_loop P tr maxPages (link # links) cs n
                 = crawl_loop P tr maxPages links cs' (snd (fetchWithStrategies tr link 2 n))"
    and c: "crawledPages cs' = crawledPages cs + 1"
    and p: "processedUrls cs' = processedUrls cs @ [link]"
    using crawl_loop_step [OF go] by blast
  let ?n = "snd (fetchWithStrategies tr link 2 n)"
  obtain r1 where r1: "snd ?n = snd n @ r1" "map rq_url r1 = replicate (length r1) link" "r1 \<noteq> []"
    using fetchWithStrategies_requests [of tr link 2 n] by auto
  have IH: "crawledPages (fst (crawl_loop P tr maxPages links cs' ?n)) = crawledPages cs' + length links
       \<and> processedUrls (fst (crawl_loop P tr maxPages links cs' ?n)) = processedUrls cs' @ links
       \<and> (\<exists>reqs. snd (snd (crawl_loop P tr maxPages links cs' ?n)) = snd ?n @ reqs
                  \<and> remdups_adj (map rq_url reqs) = links)"
    using Cons.prems c p by (intro Cons.IH) auto
  then obtain r2 where r2: "snd (snd (crawl_loop P tr maxPages links cs' ?n)) = snd ?n @ r2"
    "remdups_adj (map rq_url r2) = links"
    by blast
  have h: "map rq_url r2 = [] \<or> hd (map rq_url r2) \<noteq> link"
  proof (cases "map rq_url r2 = []")
    case True
    then show ?thesis by simp
  next
    case False
    then have "links \<noteq> []" using r2(2) by auto
    moreover have "hd (map rq_url r2) = hd links"
      using r2(2) hd_remdups_adj [of "map rq_url r2"] by simp
    moreover have "link \<notin> set links" using Cons.prems(1) by simp
    ultimately show ?thesis by (metis hd_in_set)
  qed
  have "remdups_adj (map rq_url (r1 @ r2)) = link # links"
    using remdups_adj_block [of "length r1" "map rq_url r2" link] r1(2,3) h r2(2) by simp
  moreover have "snd (snd (crawl_loop P tr maxPages (link # links) cs n)) = snd n @ (r1 @ r2)"
    unfolding step using r2(1) r1(1) by simp
  ultimately have "\<exists>reqs. snd (snd (crawl_loop P tr maxPages (link # links) cs n)) = snd n @ reqs
                  \<and> remdups_adj (map rq_url reqs) = link # links"
    by blast
  then show ?case
    unfolding step using IH c p by simp
qed

text \<open>
  C3, as amended.  When the first \<open>maxPages - 1\<close> extracted candidates exist and none of
  them is the seed URL, the crawl visits exactly these candidates, in order, and ends
  with \<open>crawledPages = maxPages\<close>: the requests issued after the main page are, for one
  candidate after the other, the requests of its fetch, and each candidate is counted
  and recorded whether its fetch succeeds or fails.
\<close>

theorem crawl_reaches_budget:
  assumes "candidates = take (maxPages - 1) (extractLinksFromHtml P mainHtml targetUrl)"
    and "length candidates = maxPages - 1"
    and "targetUrl \<notin> set candidates"
    and "0 < maxPages"
  shows "crawledPages (fst (crawl_from_main P tr maxPages targetUrl mainHtml n)) = maxPages
       \<and> processedUrls (fst (crawl_from_main P tr maxPages targetUrl mainHtml n))
           = targetUrl # candidates
       \<and> take (length (snd n)) (snd (snd (crawl_from_main P tr maxPages targetUrl mainHtml n)))
           = snd n
       \<and> remdups_adj (map rq_url
            (drop (length (snd n)) (snd (snd (crawl_from_main P tr maxPages targetUrl mainHtml n)))))
           = candidates"
proof -
  let ?cs = "\<lparr> allForms = analyzeForms (dom_forms (cheerio_load P mainHtml)) targetUrl,
                crawledPages = 1, successfulPages = 1, processedUrls = [targetUrl] \<rparr>"
  have d: "distinct candidates"
    unfolding assms(1) by (rule distinct_take) (rule distinct_extractLinksFromHtml)
  have i: "set candidates \<inter> set (processedUrls ?cs) = {}"
    using assms(3) by simp
  have b: "crawledPages ?cs + length candidates \<le> maxPages"
    using assms(2,4) by simp
  have e: "crawl_from_main P tr maxPages targetUrl mainHtml n = crawl_loop P tr maxPages candidates ?cs n"
    by (simp add: crawl_from_main_def assms(1))
  note V = crawl_loop_visits_all [OF d i b, of P tr n]
  then obtain reqs where r: "snd (snd (crawl_loop P tr maxPages candidates ?cs n)) = snd n @ reqs"
    "remdups_adj (map rq_url reqs) = candidates"
    by blast
  show ?thesis
    unfolding e using V r assms(2,4) by simp
qed

theorem crawl_reaches_budget_witness:
  "crawledPages (fst (crawl_from_main (demo_platform page_ten_links) always_200 10
       ''https://x.com/'' ''<html></html>'' ((), []))) = 10
   \<and> processedUrls (fst (crawl_from_main (demo_platform page_ten_links) always_200 10
       ''https://x.com/'' ''<html></html>'' ((), [])))
     = [''https://x.com/'', ''https://x.com/p1'', ''https://x.com/p2'', ''https://x.com/p3'',
        ''https://x.com/p4'', ''https://x.com/p5'', ''https://x.com/p6'', ''https://x.com/p7'',
        ''https://x.com/p8'', ''https://x.com/p9'']
   \<and> remdups_adj (map rq_url
        (drop (length (snd ((), []::fetch_request list)))
           (snd (snd (crawl_from_main (demo_platform page_ten_links) always_200 10
              ''https://x.com/'' ''<html></html>'' ((), []))))))
     = [''https://x.com/p1'', ''https://x.com/p2'', ''https://x.com/p3'',
        ''https://x.com/p4'', ''https://x.com/p5'', ''https://x.com/p6'', ''https://x.com/p7'',
        ''https://x.com/p8'', ''https://x.com/p9'']"
proof -
  have c: "[''https://x.com/p1'', ''https://x.com/p2'', ''https://x.com/p3'',
        ''https://x.com/p4'', ''https://x.com/p5'', ''https://x.com/p6'', ''https://x.com/p7'',
        ''https://x.com/p8'', ''https://x.com/p9'']
      = take (10 - 1) (extractLinksFromHtml (demo_platform page_ten_links) ''<html></html>''
          ''https://x.com/'')"
    by code_simp
  have l: "length [''https://x.com/p1'', ''https://x.com/p2'', ''https://x.com/p3'',
        ''https://x.com/p4'', ''https://x.com/p5'', ''https://x.com/p6'', ''https://x.com/p7'',
        ''https://x.com/p8'', ''https://x.com/p9''] = 10 - 1"
    by simp
  have s: "''https://x.com/'' \<notin> set [''https://x.com/p1'', ''https://x.com/p2'', ''https://x.com/p3'',
        ''https://x.com/p4'', ''https://x.com/p5'', ''https://x.com/p6'', ''https://x.com/p7'',
        ''https://x.com/p8'', ''https://x.com/p9'']"
    by simp
  have p: "0 < (10::nat)" by simp
  show ?thesis
    using crawl_reaches_budget [OF c l s p, of always_200 "((), [])"] by blast
qed

text \<open>
  Where C3 fails as stated: the page has eleven distinct links of the seed's host, the
  first of them the seed URL itself.  The loop stops at this first candidate, and the
  route reports one crawled page.
\<close>

theorem crawl_stops_at_seed_link_counterexample:
  "extractLinksFromHtml (demo_platform page_home_first) ''<html></html>'' ''https://x.com/''
     = [''https://x.com/'', ''https://x.com/p1'', ''https://x.com/p2'', ''https://x.com/p3'',
        ''https://x.com/p4'', ''https://x.com/p5'', ''https://x.com/p6'', ''https://x.com/p7'',
        ''https://x.com/p8'', ''https://x.com/p9'', ''https://x.com/p10'']
   \<and> map_option total_pages_crawled
        (rs_payload (fst (form_validation_POST (demo_platform page_home_first) always_200 None
           (Some ''https://x.com/'') ((), [])))) = Some 1"
  by code_simp

section \<open>Insertion without duplicates\<close>



lemma dedup_links_Nil [simp]: "dedup_links xs [] = xs"
  by (simp add: dedup_links_def)

lemma dedup_links_Cons [simp]: "dedup_links xs (l # ls) = dedup_links (insert_new l xs) ls"
  by (simp add: dedup_links_def)

lemma dedup_links_append: "dedup_links xs (ls @ ms) = dedup_links (dedup_links xs ls) ms"
  by (simp add: dedup_links_def)







lemma find_filter: "find p (filter q xs) = find (\<lambda>x. q x \<and> p x) xs"
  by (induction xs) auto

lemma find_cong_set: "(\<And>x. x \<in> set xs \<Longrightarrow> p x = q x) \<Longrightarrow> find p xs = find q xs"
  by (induction xs) auto

lemma find_None_set: "(\<And>x. x \<in> set xs \<Longrightarrow> \<not> p x) \<Longrightarrow> find p xs = None"
  by (induction xs) auto

section \<open>The structured tier as insertion without duplicates\<close>

lemma anchor_candidates_Nil [simp]: "anchor_candidates P t nt [] = []"
  by (simp add: anchor_candidates_def map_filter_simps)

lemma anchor_candidates_Cons [simp]:
  "anchor_candidates P t nt (a # as) =
     (case anchor_candidate P t nt a of
        None \<Rightarrow> anchor_candidates P t nt as
      | Some l \<Rightarrow> l # anchor_candidates P t nt as)"
  by (cases "anchor_candidate P t nt a") (simp_all add: anchor_candidates_def map_filter_simps)

lemma link_callback_candidate:
  "link_callback P t bd nt a st =
     (case anchor_candidate P t nt a of
        None \<Rightarrow> Inr st
      | Some l \<Rightarrow>
          (case new_URL P (link_url l) of
             None \<Rightarrow> Inl invalid_url_error
           | Some v \<Rightarrow>
               if u_hostname v = bd then Inr (insert_new l (fst st), snd st)
               else Inr (fst st, insert_new l (snd st))))"
  by (cases st)
     (simp add: link_callback_def anchor_candidate_def insert_new_def Let_def
        split: option.splits)

lemma each_element_link_callback:
  "each_element (link_callback P t bd nt) as st =
     (if \<forall>l \<in> set (anchor_candidates P t nt as). new_URL P (link_url l) \<noteq> None
      then Inr (dedup_links (fst st) (filter (is_internal P bd) (anchor_candidates P t nt as)),
                dedup_links (snd st) (filter (is_external P bd) (anchor_candidates P t nt as)))
      else Inl invalid_url_error)"
proof (induction as arbitrary: st)
  case Nil
  show ?case by simp
next
  case (Cons a as)
  note cb = link_callback_candidate [of P t bd nt a st]
  show ?case
  proof (cases "anchor_candidate P t nt a")
    case None
    with cb have "link_callback P t bd nt a st = Inr st" by simp
    with None show ?thesis by (simp add: Cons.IH)
  next
    case (Some l)
    note c = this
    show ?thesis
    proof (cases "new_URL P (link_url l)")
      case None
      with cb c have "link_callback P t bd nt a st = Inl invalid_url_error" by simp
      with None c show ?thesis by auto
    next
      case (Some v)
      show ?thesis
      proof (cases "u_hostname v = bd")
        case True
        with cb c Some have "link_callback P t bd nt a st = Inr (insert_new l (fst st), snd st)"
          by simp
        moreover have "is_internal P bd l" "\<not> is_external P bd l"
          using Some True by (simp_all add: is_internal_def is_external_def)
        ultimately show ?thesis using c Some
          by (simp add: Cons.IH)
      next
        case False
        with cb c Some have "link_callback P t bd nt a st = Inr (fst st, insert_new l (snd st))"
          by simp
        moreover have "\<not> is_internal P bd l" "is_external P bd l"
          using Some False by (simp_all add: is_internal_def is_external_def)
        ultimately show ?thesis using c Some
          by (simp add: Cons.IH)
      qed
    qed
  qed
qed

lemma internal_not_external: "is_internal P bd l \<Longrightarrow> \<not> is_external P bd l"
  by (auto simp: is_internal_def is_external_def split: option.splits)



lemma is_external_url: "link_url l = link_url l' \<Longrightarrow> is_external P bd l = is_external P bd l'"
  by (simp add: is_external_def)





section \<open>The pattern tier as insertion without duplicates\<close>

lemma match_candidates_Nil [simp]: "match_candidates P b [] = []"
  by (simp add: match_candidates_def map_filter_simps)

lemma match_candidates_Cons [simp]:
  "match_candidates P b (m # ms) =
     (case match_candidate P b m of
        None \<Rightarrow> match_candidates P b ms
      | Some l \<Rightarrow> l # match_candidates P b ms)"
  by (cases "match_candidate P b m") (simp_all add: match_candidates_def map_filter_simps)








section \<open>The deep-analysis link collection as insertion without duplicates\<close>

lemma deep_candidates_Nil [simp]: "deep_candidates P t [] = []"
  by (simp add: deep_candidates_def map_filter_simps)

lemma deep_candidates_Cons [simp]:
  "deep_candidates P t (a # as) =
     (case deep_candidate P t a of
        Inl e \<Rightarrow> deep_candidates P t as
      | Inr None \<Rightarrow> deep_candidates P t as
      | Inr (Some l) \<Rightarrow> l # deep_candidates P t as)"
  by (simp add: deep_candidates_def map_filter_simps split: sum.splits option.splits)





lemma set_insert_new: "set (insert_new l xs) \<subseteq> insert l (set xs)"
  by (auto simp: insert_new_def)

lemma set_dedup_links: "set (dedup_links xs ls) \<subseteq> set xs \<union> set ls"
proof (induction ls arbitrary: xs)
  case Nil
  show ?case by simp
next
  case (Cons l ls)
  have "set (dedup_links (insert_new l xs) ls) \<subseteq> set (insert_new l xs) \<union> set ls"
    by (rule Cons.IH)
  also have "\<dots> \<subseteq> insert l (set xs) \<union> set ls"
    using set_insert_new [of l xs] by blast
  finally show ?case by auto
qed

text \<open>
  In the structured tier the two lists are separated by the host name: a link is in
  \<open>internal_links\<close> when the host name of its URL is the base domain, in
  \<open>external_links\<close> when it is another one, and no URL is in both.
\<close>

lemma cheerio_tier_partition:
  assumes "each_element (link_callback P t bd nt) anchors ([], []) = Inr st"
  shows "(\<forall>l \<in> set (fst st). is_internal P bd l) \<and> (\<forall>l \<in> set (snd st). is_external P bd l)
       \<and> link_url ` set (fst st) \<inter> link_url ` set (snd st) = {}"
proof -
  let ?cs = "anchor_candidates P t nt anchors"
  have ok: "\<forall>l \<in> set ?cs. new_URL P (link_url l) \<noteq> None"
    using assms by (simp add: each_element_link_callback split: if_splits)
  have st: "fst st = dedup_links [] (filter (is_internal P bd) ?cs)"
    "snd st = dedup_links [] (filter (is_external P bd) ?cs)"
    using assms ok by (auto simp: each_element_link_callback)
  have i: "\<forall>l \<in> set (fst st). is_internal P bd l"
    unfolding st using set_dedup_links [of "[]" "filter (is_internal P bd) ?cs"] by auto
  have e: "\<forall>l \<in> set (snd st). is_external P bd l"
    unfolding st using set_dedup_links [of "[]" "filter (is_external P bd) ?cs"] by auto
  have "link_url ` set (fst st) \<inter> link_url ` set (snd st) = {}"
  proof (rule ccontr)
    assume "link_url ` set (fst st) \<inter> link_url ` set (snd st) \<noteq> {}"
    then obtain l l' where "l \<in> set (fst st)" "l' \<in> set (snd st)" "link_url l = link_url l'"
      by auto
    then have "is_internal P bd l" "is_external P bd l'" "link_url l = link_url l'"
      using i e by auto
    then show False
      using internal_not_external is_external_url by metis
  qed
  with i e show ?thesis by blast
qed







section \<open>The host name partition in the deep-analysis route\<close>

text \<open>
  C2.  The quick-links and full-analysis routes compare host names
  (\<open>cheerio_tier_partition\<close>).  The deep-analysis route tests instead whether the link
  starts with the base URL: on \<open>https://x.com/\<close> the link to
  \<open>https://x.com.evil.org/page\<close> is collected as internal, although its host name is
  \<open>x.com.evil.org\<close>, and the route goes on to fetch and analyse that page.
\<close>

theorem deep_prefix_link_counted_internal:
  "new_URL (demo_platform page_lookalike) ''https://x.com/'' = Some x_com
   \<and> u_hostname x_com = ''x.com''
   \<and> deep_internal_links (demo_platform page_lookalike) x_com page_lookalike
       = Inr [\<lparr> link_url = ''https://x.com.evil.org/page'', link_text = ''Offer'',
                 link_title = [] \<rparr>]
   \<and> map_option u_hostname (new_URL (demo_platform page_lookalike) ''https://x.com.evil.org/page'')
       = Some ''x.com.evil.org''
   \<and> map_option (\<lambda>p. map ap_url (dp_analyzed_data p))
         (rs_payload (fst (deep_analysis_POST (demo_platform page_lookalike) always_200
            (Some ''https://x.com/'') ((), []))))
       = Some [''https://x.com.evil.org/page'']
   \<and> map rq_url (snd (snd (deep_analysis_POST (demo_platform page_lookalike) always_200
         (Some ''https://x.com/'') ((), []))))
       = [''https://x.com/'', ''https://x.com.evil.org/page'']"
  by code_simp


end
